theory Spec2Isabelle
  imports Main "HOL-Library.AList" "HOL-Library.Sublist" "HOL-Library.Char_ord"
    "HOL-Library.List_Lexorder"
begin

section \<open>Strings\<close>

text \<open>
  Python strings are modelled as \<^typ>\<open>string\<close>, one \<^typ>\<open>char\<close> per code point;
  the model covers ASCII text. \<open>is_space\<close> is \<^verbatim>\<open>str.isspace\<close> on ASCII (tab,
  line feed, vertical tab, form feed, carriage return, the four separators 28..31, and
  space), \<open>strip\<close> is \<^verbatim>\<open>str.strip()\<close>, and \<open>upper\<close> is \<^verbatim>\<open>str.upper()\<close>,
  which on ASCII maps the 26 lower-case letters and leaves every other character.
\<close>

definition is_space :: "char \<Rightarrow> bool" where
  "is_space c = (of_char c \<in> {9, 10, 11, 12, 13, 28, 29, 30, 31, 32 :: nat})"

definition strip :: "string \<Rightarrow> string" where
  "strip s = rev (dropWhile is_space (rev (dropWhile is_space s)))"

definition lower_letters :: string where
  "lower_letters = ''abcdefghijklmnopqrstuvwxyz''"

definition upper_letters :: string where
  "upper_letters = ''ABCDEFGHIJKLMNOPQRSTUVWXYZ''"

definition is_lower :: "char \<Rightarrow> bool" where
  "is_lower c = (c \<in> set lower_letters)"

definition upper_char :: "char \<Rightarrow> char" where
  "upper_char c =
     (case map_of (zip lower_letters upper_letters) c of Some u \<Rightarrow> u | None \<Rightarrow> c)"

definition upper :: "string \<Rightarrow> string" where
  "upper s = map upper_char s"

text \<open>\<^verbatim>\<open>s.split(".")\<close>: always at least one part.\<close>

fun split_dot :: "string \<Rightarrow> string list" where
  "split_dot [] = [[]]"
| "split_dot (c # cs) =
     (if c = CHR ''.'' then [] # split_dot cs
      else (case split_dot cs of
              [] \<Rightarrow> [[c]]
            | p # ps \<Rightarrow> (c # p) # ps))"

text \<open>\<^verbatim>\<open>".".join(parts)\<close>\<close>

fun join_dot :: "string list \<Rightarrow> string" where
  "join_dot [] = []"
| "join_dot [p] = p"
| "join_dot (p # q # ps) = p @ CHR ''.'' # join_dot (q # ps)"

section \<open>Domain utilities\<close>

definition ROOT_DOMAIN :: string where
  "ROOT_DOMAIN = ''GLOBAL''"

text \<open>\<^verbatim>\<open>_normalize_domain\<close>: \<^verbatim>\<open>None\<close> and the empty string are falsy.\<close>

definition normalize_domain :: "string option \<Rightarrow> string" where
  "normalize_domain domain =
     (case domain of
        None \<Rightarrow> ROOT_DOMAIN
      | Some s \<Rightarrow>
          if s = [] then ROOT_DOMAIN
          else (let d = strip s in if d \<noteq> [] then d else ROOT_DOMAIN))"

text \<open>
  \<^verbatim>\<open>_domain_chain\<close>. \<open>out\<close> is the list comprehension over
  \<^verbatim>\<open>range(len(parts), 0, -1)\<close>; \<^verbatim>\<open>out[-1]\<close> is \<open>last out\<close>, and \<open>out\<close> is never
  empty because \<open>split_dot\<close> never returns the empty list (lemma \<open>split_dot_not_Nil\<close>).
\<close>

definition domain_chain :: "string \<Rightarrow> string list" where
  "domain_chain domain0 =
     (let domain = normalize_domain (Some domain0) in
      if domain = ROOT_DOMAIN then [ROOT_DOMAIN]
      else
        (let parts = split_dot domain;
             out = map (\<lambda>i. join_dot (take i parts)) (rev [1 ..< Suc (length parts)])
         in if last out \<noteq> ROOT_DOMAIN then out @ [ROOT_DOMAIN] else out))"

text \<open>The prefixes with at least two parts (used to describe \<open>domain_chain\<close>).\<close>

definition longer_prefixes :: "string list \<Rightarrow> string list" where
  "longer_prefixes parts =
     map (\<lambda>i. join_dot (take i parts)) (rev [Suc (Suc 0) ..< Suc (length parts)])"

section \<open>Values read from JSON, and errors\<close>

text \<open>
  What \<^verbatim>\<open>json.load\<close> returns. An object is a Python \<^verbatim>\<open>dict\<close>: an
  association list in insertion order, with no key twice, iterated in that order. The
  payload of a number plays no role (the loaders only test types). Object keys are always
  strings.
\<close>

datatype json =
    JNull
  | JBool bool
  | JNum int
  | JStr string
  | JList "json list"
  | JDict "(string \<times> json) list"

text \<open>The exceptions of the source, one constructor per \<^verbatim>\<open>raise\<close> (class and message).\<close>

datatype value_error =
    LabelEmpty                \<comment> \<open>label must be a non-empty string.\<close>
  | LangEmpty                 \<comment> \<open>lang must be a non-empty string.\<close>
  | LangNotAllowed string     \<comment> \<open>lang ... not in allowed set ...\<close>
  | TextNotString             \<comment> \<open>text must be a string.\<close>
  | InvalidEntry string       \<comment> \<open>Invalid entry for label ...: expected object of languages.\<close>
  | ListExpectsObjects        \<comment> \<open>List form expects objects with keys: ...\<close>
  | RecordFieldsNotStrings    \<comment> \<open>Each record must have string fields: ...\<close>
  | NotObjectOrList           \<comment> \<open>JSON must be an object or a list.\<close>
  | DomainsNotObject          \<comment> \<open>Domain-aware JSON must be a top-level object.\<close>
  | DomainNotObject           \<comment> \<open>Each domain key must map to an object of labels.\<close>
  | LabelNotObject            \<comment> \<open>Each label must map to an object of languages.\<close>
  | LangTextNotString         \<comment> \<open>Languages must map to string texts.\<close>
  | SingleLangNotStrings      \<comment> \<open>Single-language JSON must map str labels to str texts.\<close>

datatype key_error =
    MissingLabel                      \<comment> \<open>Missing label\<close>
  | TextNotFound string "string list" \<comment> \<open>Text not found for label=... in domain chain ...\<close>

text \<open>
  What \<^verbatim>\<open>str.format\<close> raises (all subclasses of \<^verbatim>\<open>Exception\<close>): a single brace or
  an unclosed field or a brace inside a field name (\<^verbatim>\<open>ValueError\<close>), a positional
  field with no positional arguments (\<^verbatim>\<open>IndexError\<close>), a keyword that is not supplied
  (\<^verbatim>\<open>KeyError\<close>).
\<close>

datatype format_error =
    SingleBrace
  | UnclosedField
  | BraceInField
  | PositionalField
  | MissingKey string

text \<open>
  \<open>TypeError\<close> is what a call raises when a keyword argument names a parameter that
  already has a value (\<^verbatim>\<open>got multiple values for argument\<close>).
\<close>

datatype error =
    ValueError value_error
  | KeyError key_error
  | FileNotFoundError
  | JSONDecodeError
  | RuntimeError
  | TypeError
  | FormatError format_error

section \<open>The catalog\<close>

text \<open>
  \<^verbatim>\<open>self._data\<close> is \<^verbatim>\<open>{domain: {label: {lang: text}}}\<close>. Python dictionaries keep
  insertion order: a new key goes to the end, an assignment to an existing key keeps its
  place. \<open>AList.update\<close> does exactly that, \<open>map_of\<close> is \<^verbatim>\<open>dict.get\<close>.
\<close>

type_synonym langs = "(string \<times> string) list"
type_synonym labels = "(string \<times> langs) list"
type_synonym store = "(string \<times> labels) list"

record catalog =
  data :: store
  default_lang :: string
  allowed :: "string set option"
  context_domain :: string

text \<open>\<^verbatim>\<open>x or y\<close> on an optional string: \<^verbatim>\<open>None\<close> and \<^verbatim>\<open>""\<close> are falsy.\<close>

definition py_or :: "string option \<Rightarrow> string \<Rightarrow> string" where
  "py_or x y = (case x of None \<Rightarrow> y | Some s \<Rightarrow> if s \<noteq> [] then s else y)"

text \<open>\<^verbatim>\<open>LanguageCatalog.__init__\<close>; an empty \<open>allowed_langs\<close> is falsy, so no allow-list.\<close>

definition LanguageCatalog :: "string \<Rightarrow> string list option \<Rightarrow> catalog" where
  "LanguageCatalog default_lang0 allowed_langs =
     \<lparr> data = [],
       default_lang = (if default_lang0 \<noteq> [] then upper default_lang0 else ''EN''),
       allowed = (case allowed_langs of
                    None \<Rightarrow> None
                  | Some xs \<Rightarrow> if xs \<noteq> [] then Some (set (map upper xs)) else None),
       context_domain = ROOT_DOMAIN \<rparr>"

text \<open>\<^verbatim>\<open>_normalize_lang\<close>\<close>

definition normalize_lang :: "catalog \<Rightarrow> string \<Rightarrow> error + string" where
  "normalize_lang c lang =
     (if lang = [] then Inl (ValueError LangEmpty)
      else (let code = upper lang in
            case allowed c of
              None \<Rightarrow> Inr code
            | Some A \<Rightarrow> if code \<notin> A then Inl (ValueError (LangNotAllowed code)) else Inr code))"

definition set_default_lang :: "catalog \<Rightarrow> string \<Rightarrow> error + catalog" where
  "set_default_lang c lang =
     (case normalize_lang c lang of
        Inl e \<Rightarrow> Inl e
      | Inr code \<Rightarrow> Inr (c\<lparr>default_lang := code\<rparr>))"

definition set_context :: "catalog \<Rightarrow> string option \<Rightarrow> catalog" where
  "set_context c domain = c\<lparr>context_domain := normalize_domain domain\<rparr>"

text \<open>\<^verbatim>\<open>dict.setdefault\<close>: the value now stored under the key, and the dictionary.\<close>

definition setdefault :: "('k \<times> 'v) list \<Rightarrow> 'k \<Rightarrow> 'v \<Rightarrow> 'v \<times> ('k \<times> 'v) list" where
  "setdefault m k v = (case map_of m k of Some x \<Rightarrow> (x, m) | None \<Rightarrow> (v, m @ [(k, v)]))"

text \<open>
  \<^verbatim>\<open>set_text\<close>. The buckets are dictionaries inside \<^verbatim>\<open>self._data\<close>, mutated in place;
  the model writes them back. \<open>text\<close> is a JSON value because the legacy loader passes
  file values on unchecked, and \<^verbatim>\<open>set_text\<close> itself tests \<^verbatim>\<open>isinstance(text, str)\<close>.
  Every \<^verbatim>\<open>raise\<close> comes before the first mutation, so an error leaves the catalog as it was.
\<close>

definition set_text ::
  "catalog \<Rightarrow> string \<Rightarrow> string \<Rightarrow> json \<Rightarrow> bool \<Rightarrow> string option \<Rightarrow> error + catalog" where
  "set_text c label lang text overwrite domain =
     (if label = [] then Inl (ValueError LabelEmpty)
      else case normalize_lang c lang of
        Inl e \<Rightarrow> Inl e
      | Inr code \<Rightarrow>
          (case text of
             JStr t \<Rightarrow>
               (let dom = normalize_domain (Some (py_or domain (context_domain c)));
                    (bucket_labels, d1) = setdefault (data c) dom [];
                    (bucket_langs, bl1) = setdefault bucket_labels label []
                in if \<not> overwrite \<and> code \<in> fst ` set bucket_langs
                   then Inr (c\<lparr>data := AList.update dom bl1 d1\<rparr>)
                   else Inr (c\<lparr>data :=
                          AList.update dom
                            (AList.update label (AList.update code t bucket_langs) bl1) d1\<rparr>))
           | _ \<Rightarrow> Inl (ValueError TextNotString)))"

text \<open>
  The body of the \<^verbatim>\<open>for d in chain\<close> loop of \<^verbatim>\<open>get_text\<close> for one domain: \<open>None\<close>
  is falling through to the next iteration, \<open>Some t\<close> is \<^verbatim>\<open>return t\<close>.
\<close>

definition try_domain ::
  "catalog \<Rightarrow> string \<Rightarrow> string \<Rightarrow> string option \<Rightarrow> string \<Rightarrow> string option" where
  "try_domain c label primary_lang fallback_code d =
     (case map_of (data c) d of
        None \<Rightarrow> None
      | Some labels \<Rightarrow>
          if labels = [] then None
          else (case map_of labels label of
                  None \<Rightarrow> None
                | Some langs \<Rightarrow>
                    if langs = [] then None
                    else (case map_of langs primary_lang of
                            Some t \<Rightarrow> Some t
                          | None \<Rightarrow>
                              (let fb = (case fallback_code of
                                           None \<Rightarrow> None
                                         | Some f \<Rightarrow> if f \<noteq> [] then Some f else None);
                                   tried = {primary_lang} \<union> set_option fb
                               in case (case fb of None \<Rightarrow> None | Some f \<Rightarrow> map_of langs f) of
                                    Some t \<Rightarrow> Some t
                                  | None \<Rightarrow>
                                      if default_lang c \<notin> tried
                                      then map_of langs (default_lang c)
                                      else None))))"

fun search_chain ::
  "catalog \<Rightarrow> string \<Rightarrow> string \<Rightarrow> string option \<Rightarrow> string list \<Rightarrow> string option" where
  "search_chain c label primary_lang fallback_code [] = None"
| "search_chain c label primary_lang fallback_code (d # ds) =
     (case try_domain c label primary_lang fallback_code d of
        Some t \<Rightarrow> Some t
      | None \<Rightarrow> search_chain c label primary_lang fallback_code ds)"

text \<open>\<^verbatim>\<open>self._normalize_lang(x) if x else other\<close>\<close>

definition lang_or :: "catalog \<Rightarrow> string option \<Rightarrow> 'a \<Rightarrow> (string \<Rightarrow> 'a) \<Rightarrow> error + 'a" where
  "lang_or c x other wrap =
     (case x of
        None \<Rightarrow> Inr other
      | Some l \<Rightarrow> if l = [] then Inr other else map_sum id wrap (normalize_lang c l))"

definition get_text ::
  "catalog \<Rightarrow> string \<Rightarrow> string option \<Rightarrow> string option \<Rightarrow> string option \<Rightarrow> string option
     \<Rightarrow> error + string" where
  "get_text c label lang fallback_lang dflt domain =
     (if label = [] then
        (case dflt of Some t \<Rightarrow> Inr t | None \<Rightarrow> Inl (KeyError MissingLabel))
      else
        (let dom = normalize_domain (Some (py_or domain (context_domain c)));
             chain = domain_chain dom
         in case lang_or c lang (default_lang c) id of
              Inl e \<Rightarrow> Inl e
            | Inr primary_lang \<Rightarrow>
                (case lang_or c fallback_lang None Some of
                   Inl e \<Rightarrow> Inl e
                 | Inr fallback_code \<Rightarrow>
                     (case search_chain c label primary_lang fallback_code chain of
                        Some t \<Rightarrow> Inr t
                      | None \<Rightarrow>
                          (case dflt of
                             Some t \<Rightarrow> Inr t
                           | None \<Rightarrow> Inl (KeyError (TextNotFound label chain)))))))"

text \<open>
  \<^verbatim>\<open>fmt(self, label, lang=None, *, fallback_lang=None, default=None, domain=None,
  **kwargs)\<close>, as a call \<^verbatim>\<open>cat.fmt(label, **kws)\<close> (\<open>lang = None\<close>) or
  \<^verbatim>\<open>cat.fmt(label, lang, **kws)\<close>: the label, and the language when given, are
  positional, everything else is passed by keyword, with string values. Python binds a
  keyword that is the name of a parameter to that parameter: \<open>self\<close> and \<open>label\<close>, and
  \<open>lang\<close> beside a positional language, already have a value, which is a
  \<^verbatim>\<open>TypeError\<close> at the call; \<open>lang\<close>, \<open>fallback_lang\<close>, \<open>default\<close> and \<open>domain\<close> become
  the lookup arguments; only the remaining entries form \<^verbatim>\<open>kwargs\<close>. \<open>kws\<close> lists
  the entries of a dictionary, so no key occurs twice.

  \<^verbatim>\<open>template.format(**kwargs)\<close> is Python's built-in, not code of this repository: it
  is the parameter \<open>format\<close>, which returns the formatted string or the exception it
  raised. \<^verbatim>\<open>except Exception: return template\<close> is the \<open>Inl\<close> branch. The call of
  \<^verbatim>\<open>get_text\<close> is outside the \<^verbatim>\<open>try\<close>.
\<close>

definition reserved_names :: "string set" where
  "reserved_names = {''self'', ''label'', ''lang'', ''fallback_lang'', ''default'', ''domain''}"

definition fmt ::
  "(string \<Rightarrow> (string \<times> string) list \<Rightarrow> error + string) \<Rightarrow> catalog \<Rightarrow> string
     \<Rightarrow> string option \<Rightarrow> (string \<times> string) list \<Rightarrow> error + string" where
  "fmt format c label lang kws =
     (if ''self'' \<in> fst ` set kws \<or> ''label'' \<in> fst ` set kws \<or>
         (lang \<noteq> None \<and> ''lang'' \<in> fst ` set kws)
      then Inl TypeError
      else
        (let lang1 = (case lang of None \<Rightarrow> map_of kws ''lang'' | Some l \<Rightarrow> Some l);
             fallback_lang = map_of kws ''fallback_lang'';
             dflt = map_of kws ''default'';
             domain = map_of kws ''domain'';
             kwargs = filter (\<lambda>(k, v). k \<notin> reserved_names) kws
         in case get_text c label lang1 fallback_lang dflt domain of
              Inl e \<Rightarrow> Inl e
            | Inr template \<Rightarrow>
                (case format template kwargs of
                   Inl e \<Rightarrow> Inr template
                 | Inr s \<Rightarrow> Inr s)))"

text \<open>
  \<^verbatim>\<open>list_labels\<close>. A Python set handed to \<^verbatim>\<open>sorted\<close> gives its distinct elements in
  ascending order: \<open>sort (remdups xs)\<close>. Strings are compared code point by code point,
  which is the lexicographic order on \<^typ>\<open>string\<close>.
\<close>

definition list_labels :: "catalog \<Rightarrow> string option \<Rightarrow> bool \<Rightarrow> string list" where
  "list_labels c domain recursive =
     (case domain of
        None \<Rightarrow> sort (remdups (concat (map (\<lambda>(d, labels_map). map fst labels_map) (data c))))
      | Some d0 \<Rightarrow>
          (let dom = normalize_domain (Some d0) in
           if \<not> recursive then
             sort (map fst (case map_of (data c) dom of None \<Rightarrow> [] | Some m \<Rightarrow> m))
           else
             (let labels = map fst (case map_of (data c) dom of None \<Rightarrow> [] | Some m \<Rightarrow> m);
                  pre = dom @ ''.''
              in sort (remdups (labels @
                   concat (map (\<lambda>(d, labels_map).
                                  if prefix pre d then map fst labels_map else []) (data c)))))))"

section \<open>Loaders\<close>

text \<open>
  What \<^verbatim>\<open>_load_json\<close> finds at the path: no file, a file that is not JSON, or a file
  holding a JSON value. The loaders take this in place of the path.
\<close>

datatype json_file = NoFile | BadJson | Json json

definition load_json :: "json_file \<Rightarrow> error + json" where
  "load_json f =
     (case f of
        NoFile \<Rightarrow> Inl FileNotFoundError
      | BadJson \<Rightarrow> Inl JSONDecodeError
      | Json v \<Rightarrow> Inr v)"

text \<open>
  A loader mutates the catalog entry by entry, and an exception in the middle keeps what
  was stored before it: a loader returns the count or the error, and the catalog as it is
  then. The \<open>nat\<close> argument of the loops is \<^verbatim>\<open>count\<close>.
\<close>

text \<open>\<^verbatim>\<open>load_from_file\<close>, object form: \<^verbatim>\<open>for lang, text in mapping.items()\<close>\<close>

fun legacy_langs ::
  "catalog \<Rightarrow> bool \<Rightarrow> string \<Rightarrow> (string \<times> json) list \<Rightarrow> nat \<Rightarrow> (error + nat) \<times> catalog" where
  "legacy_langs c overwrite label [] n = (Inr n, c)"
| "legacy_langs c overwrite label ((lang, text) # rest) n =
     (case set_text c label lang text overwrite (Some ROOT_DOMAIN) of
        Inl e \<Rightarrow> (Inl e, c)
      | Inr c' \<Rightarrow> legacy_langs c' overwrite label rest (n + 1))"

text \<open>\<^verbatim>\<open>load_from_file\<close>, object form: \<^verbatim>\<open>for label, mapping in data.items()\<close>\<close>

fun legacy_labels ::
  "catalog \<Rightarrow> bool \<Rightarrow> (string \<times> json) list \<Rightarrow> nat \<Rightarrow> (error + nat) \<times> catalog" where
  "legacy_labels c overwrite [] n = (Inr n, c)"
| "legacy_labels c overwrite ((label, mapping) # rest) n =
     (case mapping of
        JDict items \<Rightarrow>
          (case legacy_langs c overwrite label items n of
             (Inl e, c') \<Rightarrow> (Inl e, c')
           | (Inr n', c') \<Rightarrow> legacy_labels c' overwrite rest n')
      | _ \<Rightarrow> (Inl (ValueError (InvalidEntry label)), c))"

text \<open>\<^verbatim>\<open>load_from_file\<close>, list form: \<^verbatim>\<open>for rec in data\<close>\<close>

fun legacy_records ::
  "catalog \<Rightarrow> bool \<Rightarrow> json list \<Rightarrow> nat \<Rightarrow> (error + nat) \<times> catalog" where
  "legacy_records c overwrite [] n = (Inr n, c)"
| "legacy_records c overwrite (r # rest) n =
     (case r of
        JDict kvs \<Rightarrow>
          (case (map_of kvs ''label'', map_of kvs ''lang'', map_of kvs ''text'') of
             (Some (JStr label), Some (JStr lang), Some (JStr text)) \<Rightarrow>
               (case set_text c label lang (JStr text) overwrite (Some ROOT_DOMAIN) of
                  Inl e \<Rightarrow> (Inl e, c)
                | Inr c' \<Rightarrow> legacy_records c' overwrite rest (n + 1))
           | _ \<Rightarrow> (Inl (ValueError RecordFieldsNotStrings), c))
      | _ \<Rightarrow> (Inl (ValueError ListExpectsObjects), c))"

definition load_from_file :: "catalog \<Rightarrow> json_file \<Rightarrow> bool \<Rightarrow> (error + nat) \<times> catalog" where
  "load_from_file c f overwrite =
     (case load_json f of
        Inl e \<Rightarrow> (Inl e, c)
      | Inr (JDict items) \<Rightarrow> legacy_labels c overwrite items 0
      | Inr (JList recs) \<Rightarrow> legacy_records c overwrite recs 0
      | Inr _ \<Rightarrow> (Inl (ValueError NotObjectOrList), c))"

definition add_file :: "catalog \<Rightarrow> json_file \<Rightarrow> bool \<Rightarrow> (error + nat) \<times> catalog" where
  "add_file c f overwrite = load_from_file c f overwrite"

text \<open>\<^verbatim>\<open>load_domains_from_file\<close>: \<^verbatim>\<open>for lang, text in lang_map.items()\<close>\<close>

fun domain_langs ::
  "catalog \<Rightarrow> bool \<Rightarrow> string \<Rightarrow> string \<Rightarrow> (string \<times> json) list \<Rightarrow> nat
     \<Rightarrow> (error + nat) \<times> catalog" where
  "domain_langs c overwrite dom_norm label [] n = (Inr n, c)"
| "domain_langs c overwrite dom_norm label ((lang, text) # rest) n =
     (case text of
        JStr t \<Rightarrow>
          (case set_text c label lang (JStr t) overwrite (Some dom_norm) of
             Inl e \<Rightarrow> (Inl e, c)
           | Inr c' \<Rightarrow> domain_langs c' overwrite dom_norm label rest (n + 1))
      | _ \<Rightarrow> (Inl (ValueError LangTextNotString), c))"

text \<open>\<^verbatim>\<open>load_domains_from_file\<close>: \<^verbatim>\<open>for label, lang_map in labels.items()\<close>\<close>

fun domain_labels ::
  "catalog \<Rightarrow> bool \<Rightarrow> string \<Rightarrow> (string \<times> json) list \<Rightarrow> nat \<Rightarrow> (error + nat) \<times> catalog" where
  "domain_labels c overwrite dom_norm [] n = (Inr n, c)"
| "domain_labels c overwrite dom_norm ((label, lang_map) # rest) n =
     (case lang_map of
        JDict items \<Rightarrow>
          (case domain_langs c overwrite dom_norm label items n of
             (Inl e, c') \<Rightarrow> (Inl e, c')
           | (Inr n', c') \<Rightarrow> domain_labels c' overwrite dom_norm rest n')
      | _ \<Rightarrow> (Inl (ValueError LabelNotObject), c))"

text \<open>\<^verbatim>\<open>load_domains_from_file\<close>: \<^verbatim>\<open>for dom, labels in data.items()\<close>\<close>

fun domain_entries ::
  "catalog \<Rightarrow> bool \<Rightarrow> (string \<times> json) list \<Rightarrow> nat \<Rightarrow> (error + nat) \<times> catalog" where
  "domain_entries c overwrite [] n = (Inr n, c)"
| "domain_entries c overwrite ((dom0, labels_obj) # rest) n =
     (case labels_obj of
        JDict items \<Rightarrow>
          (case domain_labels c overwrite (normalize_domain (Some dom0)) items n of
             (Inl e, c') \<Rightarrow> (Inl e, c')
           | (Inr n', c') \<Rightarrow> domain_entries c' overwrite rest n')
      | _ \<Rightarrow> (Inl (ValueError DomainNotObject), c))"

definition load_domains_from_file :: "catalog \<Rightarrow> json_file \<Rightarrow> bool \<Rightarrow> (error + nat) \<times> catalog" where
  "load_domains_from_file c f overwrite =
     (case load_json f of
        Inl e \<Rightarrow> (Inl e, c)
      | Inr (JDict items) \<Rightarrow> domain_entries c overwrite items 0
      | Inr _ \<Rightarrow> (Inl (ValueError DomainsNotObject), c))"

text \<open>\<^verbatim>\<open>load_language_only_from_file\<close>, object form: \<^verbatim>\<open>for label, text in data.items()\<close>\<close>

fun single_items ::
  "catalog \<Rightarrow> bool \<Rightarrow> string \<Rightarrow> string \<Rightarrow> (string \<times> json) list \<Rightarrow> nat
     \<Rightarrow> (error + nat) \<times> catalog" where
  "single_items c overwrite code tgt_domain [] n = (Inr n, c)"
| "single_items c overwrite code tgt_domain ((label, text) # rest) n =
     (case text of
        JStr t \<Rightarrow>
          (case set_text c label code (JStr t) overwrite (Some tgt_domain) of
             Inl e \<Rightarrow> (Inl e, c)
           | Inr c' \<Rightarrow> single_items c' overwrite code tgt_domain rest (n + 1))
      | _ \<Rightarrow> (Inl (ValueError SingleLangNotStrings), c))"

text \<open>\<^verbatim>\<open>load_language_only_from_file\<close>, list form: \<^verbatim>\<open>for rec in data\<close>\<close>

fun single_records ::
  "catalog \<Rightarrow> bool \<Rightarrow> string \<Rightarrow> string \<Rightarrow> json list \<Rightarrow> nat \<Rightarrow> (error + nat) \<times> catalog" where
  "single_records c overwrite code tgt_domain [] n = (Inr n, c)"
| "single_records c overwrite code tgt_domain (r # rest) n =
     (case r of
        JDict kvs \<Rightarrow>
          (case (map_of kvs ''label'', map_of kvs ''text'') of
             (Some (JStr label), Some (JStr text)) \<Rightarrow>
               (case set_text c label code (JStr text) overwrite (Some tgt_domain) of
                  Inl e \<Rightarrow> (Inl e, c)
                | Inr c' \<Rightarrow> single_records c' overwrite code tgt_domain rest (n + 1))
           | _ \<Rightarrow> (Inl (ValueError RecordFieldsNotStrings), c))
      | _ \<Rightarrow> (Inl (ValueError ListExpectsObjects), c))"

definition load_language_only_from_file ::
  "catalog \<Rightarrow> string \<Rightarrow> json_file \<Rightarrow> bool \<Rightarrow> string option \<Rightarrow> (error + nat) \<times> catalog" where
  "load_language_only_from_file c lang f overwrite domain =
     (case normalize_lang c lang of
        Inl e \<Rightarrow> (Inl e, c)
      | Inr code \<Rightarrow>
          (let tgt_domain = normalize_domain domain in
           case load_json f of
             Inl e \<Rightarrow> (Inl e, c)
           | Inr (JDict items) \<Rightarrow> single_items c overwrite code tgt_domain items 0
           | Inr (JList recs) \<Rightarrow> single_records c overwrite code tgt_domain recs 0
           | Inr _ \<Rightarrow> (Inl (ValueError NotObjectOrList), c)))"

text \<open>\<^verbatim>\<open>reload_from_file\<close>: \<^verbatim>\<open>self._data.clear()\<close>, then the legacy loader.\<close>

definition reload_from_file :: "catalog \<Rightarrow> json_file \<Rightarrow> (error + nat) \<times> catalog" where
  "reload_from_file c f = load_from_file (c\<lparr>data := []\<rparr>) f True"

section \<open>The process-wide service\<close>

text \<open>
  The module-level \<^verbatim>\<open>_lang_catalog\<close> is \<open>None\<close> or the catalog. \<^verbatim>\<open>init_language\<close>
  returns the new value of the global; an exception of the loader leaves the function
  before the assignment.
\<close>

definition init_language ::
  "catalog option \<Rightarrow> json_file \<Rightarrow> string \<Rightarrow> string list option \<Rightarrow> bool \<Rightarrow> string option \<Rightarrow> bool
     \<Rightarrow> (error + unit) \<times> catalog option" where
  "init_language g messages default_lang0 allowed_langs overwrite ctx domain_aware =
     (let cat = LanguageCatalog default_lang0 allowed_langs;
          (r, cat1) = (if domain_aware then load_domains_from_file cat messages overwrite
                       else load_from_file cat messages overwrite)
      in case r of
           Inl e \<Rightarrow> (Inl e, g)
         | Inr n \<Rightarrow>
             (let cat2 = (case ctx of None \<Rightarrow> cat1 | Some d \<Rightarrow> set_context cat1 (Some d))
              in (Inr (), Some cat2)))"

definition get_language :: "catalog option \<Rightarrow> error + catalog" where
  "get_language g = (case g of None \<Rightarrow> Inl RuntimeError | Some c \<Rightarrow> Inr c)"

section \<open>\<^verbatim>\<open>str.format\<close> on plain fields\<close>

text \<open>
  What \<^verbatim>\<open>template.format(**kwargs)\<close> does with string values on templates made of
  literal text, the escapes \<^verbatim>\<open>{{\<close> and \<^verbatim>\<open>}}\<close>, and replacement fields \<^verbatim>\<open>{name}\<close>. An
  empty or all-digit name is a positional field, and there are no positional arguments.
  Any other name is looked up in \<open>kwargs\<close> as it stands. \<open>format_text\<close> scans literal
  text, \<open>format_field\<close> scans a field name after its opening brace. Python formats from
  left to right and stops at the first exception. The result is \<open>None\<close> when the scan
  meets, before any exception, a field with a conversion, a format spec, an attribute or
  an index: what Python does with those is not described here.
\<close>

definition is_digit :: "char \<Rightarrow> bool" where
  "is_digit c = (48 \<le> (of_char c :: nat) \<and> (of_char c :: nat) \<le> 57)"

definition emit :: "string \<Rightarrow> (error + string) option \<Rightarrow> (error + string) option" where
  "emit s r =
     (case r of
        None \<Rightarrow> None
      | Some (Inl e) \<Rightarrow> Some (Inl e)
      | Some (Inr t) \<Rightarrow> Some (Inr (s @ t)))"

fun format_text :: "string \<Rightarrow> (string \<times> string) list \<Rightarrow> (error + string) option"
  and format_field ::
    "string \<Rightarrow> string \<Rightarrow> (string \<times> string) list \<Rightarrow> (error + string) option" where
  "format_text [] kw = Some (Inr [])"
| "format_text (c # cs) kw =
     (if c = CHR ''{'' then
        (case cs of
           [] \<Rightarrow> Some (Inl (FormatError SingleBrace))
         | c2 # cs2 \<Rightarrow>
             if c2 = CHR ''{'' then emit ''{'' (format_text cs2 kw)
             else format_field cs [] kw)
      else if c = CHR ''}'' then
        (case cs of
           [] \<Rightarrow> Some (Inl (FormatError SingleBrace))
         | c2 # cs2 \<Rightarrow>
             if c2 = CHR ''}'' then emit ''}'' (format_text cs2 kw)
             else Some (Inl (FormatError SingleBrace)))
      else emit [c] (format_text cs kw))"
| "format_field [] name kw = Some (Inl (FormatError UnclosedField))"
| "format_field (c # cs) name kw =
     (if c = CHR ''}'' then
        (if name = [] \<or> list_all is_digit name then Some (Inl (FormatError PositionalField))
         else (case map_of kw name of
                 None \<Rightarrow> Some (Inl (FormatError (MissingKey name)))
               | Some v \<Rightarrow> emit v (format_text cs kw)))
      else if c = CHR ''{'' then Some (Inl (FormatError BraceInField))
      else if c \<in> {CHR ''!'', CHR '':'', CHR ''.'', CHR ''[''} then None
      else format_field cs (name @ [c]) kw)"

definition plain_format :: "string \<Rightarrow> (string \<times> string) list \<Rightarrow> (error + string) option" where
  "plain_format template kwargs = format_text template kwargs"

text \<open>A formatter behaves like \<^verbatim>\<open>str.format\<close> wherever \<open>plain_format\<close> describes it.\<close>

definition formats_plain :: "(string \<Rightarrow> (string \<times> string) list \<Rightarrow> error + string) \<Rightarrow> bool" where
  "formats_plain format =
     (\<forall>template kwargs r. plain_format template kwargs = Some r \<longrightarrow> format template kwargs = r)"

text \<open>
  \<^verbatim>\<open>str.format\<close> as far as it is described: outside the plain fields its value is left
  open (HOL's \<open>the None\<close>), so that nothing can be concluded about it there.
\<close>

definition str_format :: "string \<Rightarrow> (string \<times> string) list \<Rightarrow> error + string" where
  "str_format template kwargs = the (plain_format template kwargs)"

section \<open>Notions used in the statements\<close>

text \<open>The text stored for a (domain, label, language) triple, if any.\<close>

definition entry :: "catalog \<Rightarrow> string \<Rightarrow> string \<Rightarrow> string \<Rightarrow> string option" where
  "entry c d label lang =
     (case map_of (data c) d of
        None \<Rightarrow> None
      | Some labels \<Rightarrow>
          (case map_of labels label of
             None \<Rightarrow> None
           | Some langs \<Rightarrow> map_of langs lang))"

text \<open>
  The store invariant of the data model: every domain key is normalized (trimmed and not
  empty), every language key has no lower-case letter and belongs to the allow-list when
  there is one.
\<close>

definition domain_normalized :: "string \<Rightarrow> bool" where
  "domain_normalized d = (d \<noteq> [] \<and> strip d = d)"

definition lang_code_ok :: "string set option \<Rightarrow> string \<Rightarrow> bool" where
  "lang_code_ok A l =
     ((\<forall>ch \<in> set l. \<not> is_lower ch) \<and> (case A of None \<Rightarrow> True | Some S \<Rightarrow> l \<in> S))"

definition labels_ok :: "string set option \<Rightarrow> labels \<Rightarrow> bool" where
  "labels_ok A m = (\<forall>(label, langs) \<in> set m. \<forall>(l, t) \<in> set langs. lang_code_ok A l)"

definition store_inv :: "catalog \<Rightarrow> bool" where
  "store_inv c =
     (\<forall>(d, m) \<in> set (data c). domain_normalized d \<and> labels_ok (allowed c) m)"

text \<open>A Python dictionary has no key twice, at any of the three levels.\<close>

definition dict_store :: "store \<Rightarrow> bool" where
  "dict_store st =
     (distinct (map fst st) \<and>
      (\<forall>(d, m) \<in> set st. distinct (map fst m) \<and>
         (\<forall>(label, langs) \<in> set m. distinct (map fst langs))))"

text \<open>
  A well-formed domain is a path below the root: trimmed, its first dot-separated segment
  is the root name. The empty string counts, because it is normalized to the root.
\<close>

definition well_formed_domain :: "string \<Rightarrow> bool" where
  "well_formed_domain d = (hd (split_dot (normalize_domain (Some d))) = ROOT_DOMAIN)"

text \<open>
  Resolution in the words of the specification. The language tiers of one lookup are the
  primary language, then the fallback language if one was supplied, then the catalog's
  default language if it is not among those already tried. The result is the first text
  found going through the chain domain by domain, and inside a domain tier by tier.
\<close>

definition lang_tiers :: "string \<Rightarrow> string option \<Rightarrow> string \<Rightarrow> string list" where
  "lang_tiers primary fallback dflt_lang =
     primary # (case fallback of None \<Rightarrow> [] | Some f \<Rightarrow> [f]) @
     (if dflt_lang = primary \<or> fallback = Some dflt_lang then [] else [dflt_lang])"

fun first_some :: "('a \<Rightarrow> 'b option) \<Rightarrow> 'a list \<Rightarrow> 'b option" where
  "first_some f [] = None"
| "first_some f (x # xs) = (case f x of Some y \<Rightarrow> Some y | None \<Rightarrow> first_some f xs)"

definition resolve_spec :: "catalog \<Rightarrow> string \<Rightarrow> string list \<Rightarrow> string list \<Rightarrow> string option" where
  "resolve_spec c label tiers chain =
     first_some (\<lambda>d. first_some (\<lambda>l. entry c d label l) tiers) chain"

definition labels_dict :: "labels \<Rightarrow> bool" where
  "labels_dict m = (distinct (map fst m) \<and> (\<forall>(label, langs) \<in> set m. distinct (map fst langs)))"

text \<open>The labels stored directly under a domain.\<close>

definition labels_at :: "catalog \<Rightarrow> string \<Rightarrow> string set" where
  "labels_at c d = (case map_of (data c) d of None \<Rightarrow> {} | Some m \<Rightarrow> fst ` set m)"

text \<open>One operation keeps the allow-list and the invariant.\<close>

definition keeps_inv :: "catalog \<Rightarrow> catalog \<Rightarrow> bool" where
  "keeps_inv c c' = (allowed c' = allowed c \<and> (store_inv c \<longrightarrow> store_inv c'))"

section \<open>A concrete catalog\<close>

text \<open>
  The catalog of the fallback example: \<open>DATA_NOT_FOUND\<close> stored only at \<open>GLOBAL\<close> in
  \<open>EN\<close> and at \<open>GLOBAL.DATABASE.ORACLE\<close> in \<open>DE\<close>, with a given default language and no
  allow-list; \<open>demo_json\<close> is the domain-aware file that loads it.
\<close>

definition demo_store :: store where
  "demo_store =
     [(''GLOBAL'', [(''DATA_NOT_FOUND'', [(''EN'', ''No data found'')])]),
      (''GLOBAL.DATABASE.ORACLE'', [(''DATA_NOT_FOUND'', [(''DE'', ''Keine Daten in Oracle'')])])]"

definition demo_catalog :: "string \<Rightarrow> catalog" where
  "demo_catalog dl =
     \<lparr> data = demo_store, default_lang = dl, allowed = None, context_domain = ROOT_DOMAIN \<rparr>"

definition demo_json :: json where
  "demo_json =
     JDict [(''GLOBAL'', JDict [(''DATA_NOT_FOUND'', JDict [(''EN'', JStr ''No data found'')])]),
            (''GLOBAL.DATABASE.ORACLE'',
               JDict [(''DATA_NOT_FOUND'', JDict [(''DE'', JStr ''Keine Daten in Oracle'')])])]"

text \<open>A catalog that accepts \<open>EN\<close> only, loaded from a legacy file with one message.\<close>

definition english_only_catalog :: catalog where
  "english_only_catalog =
     snd (load_from_file (LanguageCatalog ''EN'' (Some [''EN'']))
       (Json (JDict [(''DATA_NOT_FOUND'', JDict [(''EN'', JStr ''No data found'')])])) True)"

text \<open>
  Templates given by their parts: literal text and replacement fields with a plain name
  (not empty, not a number, none of the characters that have a meaning inside a field).
  \<open>render\<close> writes such a template down the way an author does, doubling the braces of
  literal text; \<open>substitute\<close> is the text the author expects back.
\<close>

datatype segment = Lit string | Field string

definition plain_name :: "string \<Rightarrow> bool" where
  "plain_name n =
     (n \<noteq> [] \<and> \<not> list_all is_digit n \<and>
      (\<forall>ch \<in> set n. ch \<notin> {CHR ''{'', CHR ''}'', CHR ''!'', CHR '':'', CHR ''.'', CHR ''[''}))"

fun escape :: "string \<Rightarrow> string" where
  "escape [] = []"
| "escape (ch # cs) =
     (if ch = CHR ''{'' \<or> ch = CHR ''}'' then ch # ch # escape cs else ch # escape cs)"

fun render :: "segment list \<Rightarrow> string" where
  "render [] = []"
| "render (Lit s # segs) = escape s @ render segs"
| "render (Field n # segs) = CHR ''{'' # n @ CHR ''}'' # render segs"

fun substitute :: "(string \<times> string) list \<Rightarrow> segment list \<Rightarrow> string" where
  "substitute kw [] = []"
| "substitute kw (Lit s # segs) = s @ substitute kw segs"
| "substitute kw (Field n # segs) =
     (case map_of kw n of None \<Rightarrow> [] | Some v \<Rightarrow> v) @ substitute kw segs"

definition fields_of :: "segment list \<Rightarrow> string list" where
  "fields_of segs = concat (map (\<lambda>sg. case sg of Lit s \<Rightarrow> [] | Field n \<Rightarrow> [n]) segs)"

text \<open>The catalog of the formatting scenario, as the domain-aware loader builds it.\<close>

definition greeting_json :: json where
  "greeting_json =
     JDict [(''GLOBAL'', JDict [(''GREETING'', JDict [(''EN'', JStr ''Hello {name}'')])])]"

definition greeting_catalog :: catalog where
  "greeting_catalog =
     snd (load_domains_from_file (LanguageCatalog ''EN'' None) (Json greeting_json) True)"

text \<open>A catalog whose message has a field named like a parameter of \<^verbatim>\<open>fmt\<close>.\<close>

definition domain_message_catalog :: catalog where
  "domain_message_catalog =
     snd (load_domains_from_file (LanguageCatalog ''EN'' None)
       (Json (JDict [(''GLOBAL'',
          JDict [(''BAD_DOMAIN'', JDict [(''EN'', JStr ''Bad domain {domain}'')])])])) True)"

text \<open>A catalog with labels at several levels, and a domain whose name starts like the root.\<close>

definition listing_catalog :: catalog where
  "listing_catalog =
     \<lparr> data =
         [(''GLOBAL'', [(''USAGE'', [(''EN'', ''Usage'')])]),
          (''GLOBAL.DATABASE'', [(''DB_ERROR'', [(''EN'', ''Database error'')])]),
          (''GLOBAL.DATABASE.ORACLE'',
             [(''ORA_ERROR'', [(''EN'', ''Oracle error'')]),
              (''DATA_NOT_FOUND'', [(''DE'', ''Keine Daten'')])]),
          (''GLOBALIZATION'', [(''ZONE'', [(''EN'', ''Zone'')])])],
       default_lang = ''EN'', allowed = None, context_domain = ROOT_DOMAIN \<rparr>"

section \<open>Properties of the domain utilities\<close>

lemma split_dot_not_Nil: "split_dot s \<noteq> []"
  by (induction s) (auto split: list.splits)

lemma length_split_dot: "length (split_dot s) = Suc (length (filter (\<lambda>c. c = CHR ''.'') s))"
  by (induction s) (auto split: list.splits simp: split_dot_not_Nil)

lemma not_space_dot: "\<not> is_space (CHR ''.'')"
  by (simp add: is_space_def)

lemma filter_dropWhile_dot:
  "filter (\<lambda>c. c = CHR ''.'') (dropWhile is_space s) = filter (\<lambda>c. c = CHR ''.'') s"
  by (induction s) (auto simp: not_space_dot)

lemma filter_strip_dot: "filter (\<lambda>c. c = CHR ''.'') (strip s) = filter (\<lambda>c. c = CHR ''.'') s"
proof -
  have "filter (\<lambda>c. c = CHR ''.'') (strip s)
      = rev (filter (\<lambda>c. c = CHR ''.'') (dropWhile is_space (rev (dropWhile is_space s))))"
    by (simp add: strip_def rev_filter)
  also have "\<dots> = rev (filter (\<lambda>c. c = CHR ''.'') (rev (dropWhile is_space s)))"
    by (simp only: filter_dropWhile_dot)
  also have "\<dots> = filter (\<lambda>c. c = CHR ''.'') (dropWhile is_space s)"
    by (simp add: rev_filter)
  finally show ?thesis by (simp add: filter_dropWhile_dot)
qed

text \<open>Trimming removes no dot, and the root has one segment, as the empty string has.\<close>

lemma length_split_dot_normalize:
  "length (split_dot (normalize_domain (Some s))) = length (split_dot s)"
proof (cases "s = [] \<or> strip s = []")
  case True
  then have "filter (\<lambda>c. c = CHR ''.'') s = []"
    using filter_strip_dot[of s] by auto
  with True show ?thesis
    by (auto simp: normalize_domain_def Let_def length_split_dot ROOT_DOMAIN_def)
next
  case False
  then show ?thesis
    by (simp add: normalize_domain_def Let_def length_split_dot filter_strip_dot)
qed

lemma dot_in_join_dot: "2 \<le> length ps \<Longrightarrow> CHR ''.'' \<in> set (join_dot ps)"
  by (induction ps rule: join_dot.induct) auto

lemma join_dot_take_one: "ps \<noteq> [] \<Longrightarrow> join_dot (take (Suc 0) ps) = hd ps"
  by (cases ps) auto

lemma upt_split_first: "0 < n \<Longrightarrow> [Suc 0 ..< Suc n] = Suc 0 # [Suc (Suc 0) ..< Suc n]"
  by (simp add: upt_conv_Cons)

lemma chain_out_split:
  assumes "parts \<noteq> []"
  shows "map (\<lambda>i. join_dot (take i parts)) (rev [Suc 0 ..< Suc (length parts)])
       = longer_prefixes parts @ [hd parts]"
proof -
  from assms have "0 < length parts" by simp
  then have "[Suc 0 ..< Suc (length parts)] = Suc 0 # [Suc (Suc 0) ..< Suc (length parts)]"
    by (rule upt_split_first)
  then have "rev [Suc 0 ..< Suc (length parts)]
           = rev [Suc (Suc 0) ..< Suc (length parts)] @ [Suc 0]"
    by simp
  moreover have "join_dot (take (Suc 0) parts) = hd parts"
    using assms by (rule join_dot_take_one)
  ultimately show ?thesis
    by (simp only: longer_prefixes_def map_append list.map)
qed

lemma root_no_dot: "CHR ''.'' \<notin> set ROOT_DOMAIN"
  by (simp add: ROOT_DOMAIN_def)

lemma root_not_in_longer: "ROOT_DOMAIN \<notin> set (longer_prefixes parts)"
proof
  assume "ROOT_DOMAIN \<in> set (longer_prefixes parts)"
  then obtain i where i: "Suc (Suc 0) \<le> i" "i \<le> length parts"
    and eq: "ROOT_DOMAIN = join_dot (take i parts)"
    by (auto simp: longer_prefixes_def)
  from i have "2 \<le> length (take i parts)" by simp
  then have "CHR ''.'' \<in> set (join_dot (take i parts))" by (rule dot_in_join_dot)
  with eq root_no_dot show False by simp
qed

lemma length_longer_prefixes: "length (longer_prefixes parts) = length parts - 1"
  by (auto simp: longer_prefixes_def)

text \<open>The chain, case by case: the root, a path below the root, any other path.\<close>

lemma domain_chain_unfold:
  "domain_chain d =
     (let dn = normalize_domain (Some d); parts = split_dot dn
      in if dn = ROOT_DOMAIN then [ROOT_DOMAIN]
         else if hd parts = ROOT_DOMAIN then longer_prefixes parts @ [ROOT_DOMAIN]
         else longer_prefixes parts @ [hd parts, ROOT_DOMAIN])"
  by (simp add: domain_chain_def Let_def chain_out_split split_dot_not_Nil del: upt_Suc)

lemma split_dot_root: "split_dot ROOT_DOMAIN = [ROOT_DOMAIN]"
  by (simp add: ROOT_DOMAIN_def)

text \<open>
  The shape of the chain of any domain string: it ends with the root, holds the root once,
  and has one element for each segment, and one more when the first segment is not the
  root name, because the root is then appended.
\<close>

lemma domain_chain_length:
  "last (domain_chain d) = ROOT_DOMAIN \<and>
   count_list (domain_chain d) ROOT_DOMAIN = 1 \<and>
   length (domain_chain d) =
     (if hd (split_dot (normalize_domain (Some d))) = ROOT_DOMAIN
      then length (split_dot d) else length (split_dot d) + 1)"
proof -
  let ?dn = "normalize_domain (Some d)"
  let ?parts = "split_dot ?dn"
  let ?longer = "longer_prefixes ?parts"
  have len: "length ?parts = length (split_dot d)" by (rule length_split_dot_normalize)
  have pos: "0 < length ?parts" using split_dot_not_Nil[of ?dn] by simp
  have cnt: "count_list ?longer ROOT_DOMAIN = 0"
    using root_not_in_longer[of ?parts] by simp
  have ll: "length ?longer = length ?parts - 1" by (rule length_longer_prefixes)
  show ?thesis
  proof (cases "?dn = ROOT_DOMAIN")
    case True
    then have "domain_chain d = [ROOT_DOMAIN]" by (simp add: domain_chain_unfold)
    moreover have "length (split_dot d) = 1" using len True by (simp add: split_dot_root)
    ultimately show ?thesis using True by (simp add: split_dot_root)
  next
    case False
    show ?thesis
    proof (cases "hd ?parts = ROOT_DOMAIN")
      case True
      then have "domain_chain d = ?longer @ [ROOT_DOMAIN]"
        using False by (simp add: domain_chain_unfold Let_def)
      then show ?thesis using True cnt ll len pos by simp
    next
      case nr: False
      then have "domain_chain d = ?longer @ [hd ?parts, ROOT_DOMAIN]"
        using False by (simp add: domain_chain_unfold Let_def)
      then show ?thesis using nr cnt ll len pos by simp
    qed
  qed
qed

lemma domain_chain_unrooted:
  "domain_chain ''DATABASE.ORACLE'' = [''DATABASE.ORACLE'', ''DATABASE'', ''GLOBAL'']"
  by (simp add: domain_chain_def normalize_domain_def strip_def is_space_def ROOT_DOMAIN_def
      Let_def)

lemma domain_chain_root: "domain_chain ROOT_DOMAIN = [ROOT_DOMAIN]"
  by (simp add: domain_chain_def normalize_domain_def strip_def is_space_def ROOT_DOMAIN_def
      Let_def)

text \<open>
  C4. For every well-formed domain \<open>d\<close>, the chain of \<open>d\<close> ends with the root domain,
  holds the root exactly once (also when the root name is a later segment of \<open>d\<close>), and
  has as many elements as \<open>d\<close> has dot-separated segments; the chain of the root is the
  root alone, of length 1.
\<close>

theorem domain_chain_well_formed:
  "(well_formed_domain d \<longrightarrow>
      last (domain_chain d) = ROOT_DOMAIN \<and>
      count_list (domain_chain d) ROOT_DOMAIN = 1 \<and>
      length (domain_chain d) = length (split_dot d)) \<and>
   well_formed_domain ROOT_DOMAIN \<and>
   domain_chain ROOT_DOMAIN = [ROOT_DOMAIN] \<and>
   length (domain_chain ROOT_DOMAIN) = 1"
proof -
  have "last (domain_chain d) = ROOT_DOMAIN \<and>
      count_list (domain_chain d) ROOT_DOMAIN = 1 \<and>
      length (domain_chain d) = length (split_dot d)" if "well_formed_domain d"
    using domain_chain_length[of d] that by (simp add: well_formed_domain_def)
  moreover have "well_formed_domain ROOT_DOMAIN"
    by (simp add: well_formed_domain_def normalize_domain_def strip_def is_space_def
        ROOT_DOMAIN_def)
  ultimately show ?thesis by (simp add: domain_chain_root)
qed

theorem domain_chain_well_formed_witness:
  "well_formed_domain ''GLOBAL.DATABASE.GLOBAL'' \<and>
   domain_chain ''GLOBAL.DATABASE.GLOBAL''
     = [''GLOBAL.DATABASE.GLOBAL'', ''GLOBAL.DATABASE'', ''GLOBAL''] \<and>
   last (domain_chain ''GLOBAL.DATABASE.GLOBAL'') = ROOT_DOMAIN \<and>
   count_list (domain_chain ''GLOBAL.DATABASE.GLOBAL'') ROOT_DOMAIN = 1 \<and>
   length (split_dot ''GLOBAL.DATABASE.GLOBAL'') = 3 \<and>
   length (domain_chain ''GLOBAL.DATABASE.GLOBAL'') = 3"
proof -
  have w: "well_formed_domain ''GLOBAL.DATABASE.GLOBAL''"
    by (simp add: well_formed_domain_def normalize_domain_def strip_def is_space_def
        ROOT_DOMAIN_def)
  have c: "domain_chain ''GLOBAL.DATABASE.GLOBAL''
     = [''GLOBAL.DATABASE.GLOBAL'', ''GLOBAL.DATABASE'', ''GLOBAL'']"
    by (simp add: domain_chain_def normalize_domain_def strip_def is_space_def ROOT_DOMAIN_def
        Let_def)
  have s: "length (split_dot ''GLOBAL.DATABASE.GLOBAL'') = 3" by simp
  from domain_chain_well_formed[where d = "''GLOBAL.DATABASE.GLOBAL''", THEN conjunct1,
      rule_format, OF w]
  have r: "last (domain_chain ''GLOBAL.DATABASE.GLOBAL'') = ROOT_DOMAIN \<and>
   count_list (domain_chain ''GLOBAL.DATABASE.GLOBAL'') ROOT_DOMAIN = 1 \<and>
   length (domain_chain ''GLOBAL.DATABASE.GLOBAL'') = 3"
    by (simp only: s)
  show ?thesis
    by (intro conjI)
      (rule w c s r[THEN conjunct1] r[THEN conjunct2, THEN conjunct1]
        r[THEN conjunct2, THEN conjunct2])+
qed

section \<open>The store: \<open>set_text\<close> and the invariant\<close>

lemma setdefault_present: "map_of m k = Some x \<Longrightarrow> setdefault m k v = (x, m)"
  by (simp add: setdefault_def)

lemma set_text_skip:
  assumes "label \<noteq> []" and "normalize_lang c lang = Inr code"
    and "entry c (normalize_domain (Some (py_or domain (context_domain c)))) label code = Some old"
  shows "set_text c label lang (JStr t) False domain = Inr c"
proof -
  let ?dom = "normalize_domain (Some (py_or domain (context_domain c)))"
  from assms(3) obtain labels langs where
    l1: "map_of (data c) ?dom = Some labels" and l2: "map_of labels label = Some langs"
    and l3: "map_of langs code = Some old"
    by (auto simp: entry_def split: option.splits)
  from l3 have "(code, old) \<in> set langs" by (rule map_of_SomeD)
  then have mem: "code \<in> fst ` set langs" by (rule rev_image_eqI) simp
  have u1: "AList.update ?dom labels (data c) = data c" using l1 by (rule update_triv)
  show ?thesis
    using assms(1,2) mem u1
    by (simp add: set_text_def Let_def setdefault_present[OF l1] setdefault_present[OF l2])
qed

lemma not_lower_upper_char: "\<not> is_lower (upper_char ch)"
  by (simp add: upper_char_def is_lower_def lower_letters_def upper_letters_def)

lemma dropWhile_id: "xs = [] \<or> \<not> P (hd xs) \<Longrightarrow> dropWhile P xs = xs"
  by (cases xs) auto

lemma trim_right_last:
  assumes "rev (dropWhile P (rev xs)) \<noteq> []"
  shows "\<not> P (last (rev (dropWhile P (rev xs))))"
proof -
  from assms have ne: "dropWhile P (rev xs) \<noteq> []" by simp
  then have "\<not> P (hd (dropWhile P (rev xs)))" by (rule hd_dropWhile)
  then show ?thesis using ne by (simp add: last_rev)
qed

lemma trim_right_hd:
  assumes "rev (dropWhile P (rev xs)) \<noteq> []"
  shows "hd (rev (dropWhile P (rev xs))) = hd xs"
proof -
  have "xs = rev (dropWhile P (rev xs)) @ rev (takeWhile P (rev xs))"
    by (metis rev_append rev_rev_ident takeWhile_dropWhile_id)
  then show ?thesis using assms by (metis hd_append2)
qed

lemma strip_ends:
  assumes "strip s \<noteq> []"
  shows "\<not> is_space (hd (strip s)) \<and> \<not> is_space (last (strip s))"
proof -
  let ?u = "dropWhile is_space s"
  from assms have ne: "rev (dropWhile is_space (rev ?u)) \<noteq> []" by (simp add: strip_def)
  have "?u \<noteq> []"
  proof
    assume "?u = []"
    with ne show False by simp
  qed
  then have "\<not> is_space (hd ?u)" by (rule hd_dropWhile)
  moreover have "hd (strip s) = hd ?u" unfolding strip_def using ne by (rule trim_right_hd)
  moreover have "\<not> is_space (last (strip s))" unfolding strip_def using ne by (rule trim_right_last)
  ultimately show ?thesis by simp
qed

lemma strip_strip: "strip (strip s) = strip s"
proof (cases "strip s = []")
  case True
  have "strip [] = []" by (simp add: strip_def)
  with True show ?thesis by simp
next
  case False
  then have e: "\<not> is_space (hd (strip s))" "\<not> is_space (last (strip s))"
    using strip_ends by auto
  have "dropWhile is_space (strip s) = strip s" using e(1) by (simp add: dropWhile_id)
  moreover have "dropWhile is_space (rev (strip s)) = rev (strip s)"
    using e(2) False by (simp add: dropWhile_id hd_rev)
  ultimately show ?thesis by (simp add: strip_def[of "strip s"])
qed

lemma strip_root: "strip ROOT_DOMAIN = ROOT_DOMAIN"
  by (simp add: strip_def ROOT_DOMAIN_def is_space_def)

lemma normalize_domain_normalized: "domain_normalized (normalize_domain x)"
  by (auto simp: normalize_domain_def domain_normalized_def Let_def strip_strip strip_root
      split: option.splits) (simp add: ROOT_DOMAIN_def)+

lemma normalize_lang_code_ok:
  "normalize_lang c lang = Inr code \<Longrightarrow> lang_code_ok (allowed c) code"
  by (auto simp: normalize_lang_def lang_code_ok_def Let_def upper_def not_lower_upper_char
      split: if_splits option.splits)

lemma in_set_update:
  "p \<in> set (AList.update k v m) \<Longrightarrow> p = (k, v) \<or> p \<in> set m"
  by (induction m) (auto split: if_splits)

lemma in_set_setdefault:
  "setdefault m k v = (x, m') \<Longrightarrow> p \<in> set m' \<Longrightarrow> p = (k, v) \<or> p \<in> set m"
  by (auto simp: setdefault_def split: option.splits)

lemma setdefault_value:
  "setdefault m k v = (x, m') \<Longrightarrow> x = v \<or> (k, x) \<in> set m"
  by (auto simp: setdefault_def split: option.splits dest: map_of_SomeD)

lemma set_text_allowed: "set_text c label lang text ow domain = Inr c' \<Longrightarrow> allowed c' = allowed c"
  by (auto simp: set_text_def Let_def split: if_splits sum.splits json.splits prod.splits)

lemma set_text_store_inv:
  assumes inv: "store_inv c" and st: "set_text c label lang text ow domain = Inr c'"
  shows "store_inv c'"
proof -
  let ?A = "allowed c"
  let ?dom = "normalize_domain (Some (py_or domain (context_domain c)))"
  from st obtain code t where nl: "normalize_lang c lang = Inr code" and tx: "text = JStr t"
    by (auto simp: set_text_def split: if_splits sum.splits json.splits)
  obtain bucket_labels d1 where sd1: "setdefault (data c) ?dom [] = (bucket_labels, d1)"
    by (cases "setdefault (data c) ?dom []") auto
  obtain bucket_langs bl1 where sd2: "setdefault bucket_labels label [] = (bucket_langs, bl1)"
    by (cases "setdefault bucket_labels label []") auto
  have codeok: "lang_code_ok ?A code" using nl by (rule normalize_lang_code_ok)
  have domok: "domain_normalized ?dom" by (rule normalize_domain_normalized)
  have d1ok: "\<forall>(d, m) \<in> set d1. domain_normalized d \<and> labels_ok ?A m"
    using inv in_set_setdefault[OF sd1] domok
    by (fastforce simp: store_inv_def labels_ok_def)
  have blok: "labels_ok ?A bucket_labels"
    using setdefault_value[OF sd1] inv by (fastforce simp: store_inv_def labels_ok_def)
  have bl1ok: "labels_ok ?A bl1"
    using in_set_setdefault[OF sd2] blok by (fastforce simp: labels_ok_def)
  have langsok: "\<forall>(l, t) \<in> set bucket_langs. lang_code_ok ?A l"
    using setdefault_value[OF sd2] blok by (fastforce simp: labels_ok_def)
  have langs2: "\<forall>(l, t') \<in> set (AList.update code t bucket_langs). lang_code_ok ?A l"
    using langsok codeok in_set_update[of _ code t bucket_langs] by fastforce
  have bl2ok: "labels_ok ?A (AList.update label (AList.update code t bucket_langs) bl1)"
    using bl1ok langs2 in_set_update[of _ label "AList.update code t bucket_langs" bl1]
    unfolding labels_ok_def by fastforce
  have r1: "\<forall>(d, m) \<in> set (AList.update ?dom bl1 d1). domain_normalized d \<and> labels_ok ?A m"
    using d1ok bl1ok domok in_set_update[of _ ?dom bl1 d1] by fastforce
  have r2: "\<forall>(d, m) \<in> set (AList.update ?dom
              (AList.update label (AList.update code t bucket_langs) bl1) d1).
              domain_normalized d \<and> labels_ok ?A m"
    using d1ok bl2ok domok
      in_set_update[of _ ?dom "AList.update label (AList.update code t bucket_langs) bl1" d1]
    by fastforce
  from st nl tx sd1 sd2 have
    "c' = c\<lparr>data := AList.update ?dom bl1 d1\<rparr> \<or>
     c' = c\<lparr>data := AList.update ?dom
                 (AList.update label (AList.update code t bucket_langs) bl1) d1\<rparr>"
    by (auto simp: set_text_def Let_def split: if_splits)
  then show ?thesis using r1 r2 by (auto simp: store_inv_def)
qed

lemma keeps_inv_refl: "keeps_inv c c"
  by (simp add: keeps_inv_def)

lemma keeps_inv_trans: "keeps_inv c c1 \<Longrightarrow> keeps_inv c1 c2 \<Longrightarrow> keeps_inv c c2"
  by (simp add: keeps_inv_def)

lemma set_text_keeps: "set_text c label lang tx ow domain = Inr c' \<Longrightarrow> keeps_inv c c'"
  using set_text_allowed[of c label lang tx ow domain c']
    set_text_store_inv[of c label lang tx ow domain c']
  by (simp add: keeps_inv_def)

lemma legacy_langs_keeps: "keeps_inv c (snd (legacy_langs c ow label items n))"
proof (induction items arbitrary: c n)
  case Nil
  show ?case by (simp add: keeps_inv_refl)
next
  case (Cons a items)
  obtain lang tx where a: "a = (lang, tx)" by (cases a)
  show ?case
  proof (cases "set_text c label lang tx ow (Some ROOT_DOMAIN)")
    case (Inl e)
    then show ?thesis using a by (simp add: keeps_inv_refl)
  next
    case (Inr c')
    then have "keeps_inv c c'" by (rule set_text_keeps)
    moreover have "keeps_inv c' (snd (legacy_langs c' ow label items (n + 1)))" by (rule Cons.IH)
    ultimately show ?thesis using a Inr by (simp add: keeps_inv_trans)
  qed
qed

lemma legacy_labels_keeps: "keeps_inv c (snd (legacy_labels c ow items n))"
proof (induction items arbitrary: c n)
  case Nil
  show ?case by (simp add: keeps_inv_refl)
next
  case (Cons a items)
  obtain label mapping where a: "a = (label, mapping)" by (cases a)
  show ?case
  proof (cases mapping)
    case (JDict kvs)
    obtain r c1 where r: "legacy_langs c ow label kvs n = (r, c1)"
      by (cases "legacy_langs c ow label kvs n")
    have k1: "keeps_inv c c1" using legacy_langs_keeps[of c ow label kvs n] r by simp
    show ?thesis
    proof (cases r)
      case (Inl e)
      then show ?thesis using a JDict r k1 by simp
    next
      case (Inr n')
      have "keeps_inv c1 (snd (legacy_labels c1 ow items n'))" by (rule Cons.IH)
      then show ?thesis using a JDict r Inr k1 by (simp add: keeps_inv_trans)
    qed
  qed (simp_all add: a keeps_inv_refl)
qed

lemma legacy_records_keeps: "keeps_inv c (snd (legacy_records c ow recs n))"
proof (induction recs arbitrary: c n)
  case Nil
  show ?case by (simp add: keeps_inv_refl)
next
  case (Cons r recs)
  have step: "set_text c label lang tx ow (Some ROOT_DOMAIN) = Inr c' \<Longrightarrow>
              keeps_inv c (snd (legacy_records c' ow recs m))" for label lang tx c' m
    using set_text_keeps Cons.IH keeps_inv_trans by blast
  show ?case
    by (auto simp: keeps_inv_refl step split: json.splits option.splits sum.splits)
qed

lemma load_from_file_keeps: "keeps_inv c (snd (load_from_file c f ow))"
  by (auto simp: load_from_file_def keeps_inv_refl legacy_labels_keeps legacy_records_keeps
      split: sum.splits json.splits)

lemma domain_langs_keeps: "keeps_inv c (snd (domain_langs c ow d label items n))"
proof (induction items arbitrary: c n)
  case Nil
  show ?case by (simp add: keeps_inv_refl)
next
  case (Cons a items)
  obtain lang tx where a: "a = (lang, tx)" by (cases a)
  have step: "set_text c label lang (JStr t) ow (Some d) = Inr c' \<Longrightarrow>
              keeps_inv c (snd (domain_langs c' ow d label items m))" for t c' m
    using set_text_keeps Cons.IH keeps_inv_trans by blast
  show ?case
    by (auto simp: a keeps_inv_refl step split: json.splits sum.splits)
qed

lemma domain_labels_keeps: "keeps_inv c (snd (domain_labels c ow d items n))"
proof (induction items arbitrary: c n)
  case Nil
  show ?case by (simp add: keeps_inv_refl)
next
  case (Cons a items)
  obtain label lang_map where a: "a = (label, lang_map)" by (cases a)
  show ?case
  proof (cases lang_map)
    case (JDict kvs)
    obtain r c1 where r: "domain_langs c ow d label kvs n = (r, c1)"
      by (cases "domain_langs c ow d label kvs n")
    have k1: "keeps_inv c c1" using domain_langs_keeps[of c ow d label kvs n] r by simp
    show ?thesis
    proof (cases r)
      case (Inl e)
      then show ?thesis using a JDict r k1 by simp
    next
      case (Inr n')
      have "keeps_inv c1 (snd (domain_labels c1 ow d items n'))" by (rule Cons.IH)
      then show ?thesis using a JDict r Inr k1 by (simp add: keeps_inv_trans)
    qed
  qed (simp_all add: a keeps_inv_refl)
qed

lemma domain_entries_keeps: "keeps_inv c (snd (domain_entries c ow items n))"
proof (induction items arbitrary: c n)
  case Nil
  show ?case by (simp add: keeps_inv_refl)
next
  case (Cons a items)
  obtain dom0 labels_obj where a: "a = (dom0, labels_obj)" by (cases a)
  show ?case
  proof (cases labels_obj)
    case (JDict kvs)
    let ?d = "normalize_domain (Some dom0)"
    obtain r c1 where r: "domain_labels c ow ?d kvs n = (r, c1)"
      by (cases "domain_labels c ow ?d kvs n")
    have k1: "keeps_inv c c1" using domain_labels_keeps[of c ow ?d kvs n] r by simp
    show ?thesis
    proof (cases r)
      case (Inl e)
      then show ?thesis using a JDict r k1 by simp
    next
      case (Inr n')
      have "keeps_inv c1 (snd (domain_entries c1 ow items n'))" by (rule Cons.IH)
      then show ?thesis using a JDict r Inr k1 by (simp add: keeps_inv_trans)
    qed
  qed (simp_all add: a keeps_inv_refl)
qed

lemma load_domains_from_file_keeps: "keeps_inv c (snd (load_domains_from_file c f ow))"
  by (auto simp: load_domains_from_file_def keeps_inv_refl domain_entries_keeps
      split: sum.splits json.splits)

lemma single_items_keeps: "keeps_inv c (snd (single_items c ow code d items n))"
proof (induction items arbitrary: c n)
  case Nil
  show ?case by (simp add: keeps_inv_refl)
next
  case (Cons a items)
  obtain label tx where a: "a = (label, tx)" by (cases a)
  have step: "set_text c label code (JStr t) ow (Some d) = Inr c' \<Longrightarrow>
              keeps_inv c (snd (single_items c' ow code d items m))" for t c' m
    using set_text_keeps Cons.IH keeps_inv_trans by blast
  show ?case
    by (auto simp: a keeps_inv_refl step split: json.splits sum.splits)
qed

lemma single_records_keeps: "keeps_inv c (snd (single_records c ow code d recs n))"
proof (induction recs arbitrary: c n)
  case Nil
  show ?case by (simp add: keeps_inv_refl)
next
  case (Cons r recs)
  have step: "set_text c label code tx ow (Some d) = Inr c' \<Longrightarrow>
              keeps_inv c (snd (single_records c' ow code d recs m))" for label tx c' m
    using set_text_keeps Cons.IH keeps_inv_trans by blast
  show ?case
    by (auto simp: keeps_inv_refl step split: json.splits option.splits sum.splits)
qed

lemma load_language_only_from_file_keeps:
  "keeps_inv c (snd (load_language_only_from_file c lang f ow domain))"
  by (auto simp: load_language_only_from_file_def Let_def keeps_inv_refl single_items_keeps
      single_records_keeps split: sum.splits json.splits)

lemma store_inv_clear: "store_inv (c\<lparr>data := []\<rparr>)"
  by (simp add: store_inv_def)

lemma reload_from_file_inv: "store_inv (snd (reload_from_file c f))"
  using load_from_file_keeps[of "c\<lparr>data := []\<rparr>" f True] store_inv_clear[of c]
  by (simp add: reload_from_file_def keeps_inv_def)

text \<open>
  C8. The store invariant (every domain key trimmed and not empty, every language key free
  of lower-case letters and in the allow-list when one is configured) is preserved by
  \<open>set_text\<close> and by every loader, whether the loader succeeds or stops at an error
  after some entries were stored.
\<close>

theorem store_invariant_preserved:
  assumes "store_inv c"
  shows "(\<forall>c'. set_text c label lang tx ow domain = Inr c' \<longrightarrow> store_inv c') \<and>
         store_inv (snd (load_from_file c f ow)) \<and>
         store_inv (snd (load_domains_from_file c f ow)) \<and>
         store_inv (snd (load_language_only_from_file c lang f ow domain)) \<and>
         store_inv (snd (add_file c f ow)) \<and>
         store_inv (snd (reload_from_file c f))"
  using assms set_text_store_inv[of c label lang tx ow domain]
    load_from_file_keeps[of c f ow] load_domains_from_file_keeps[of c f ow]
    load_language_only_from_file_keeps[of c lang f ow domain] reload_from_file_inv[of c f]
  by (simp add: keeps_inv_def add_file_def)

text \<open>The definitions to unfold when the code is run on concrete inputs.\<close>

lemmas eval_defs =
  set_text_def normalize_lang_def normalize_domain_def py_or_def setdefault_def strip_def
  is_space_def upper_def upper_char_def is_lower_def lower_letters_def upper_letters_def
  ROOT_DOMAIN_def Let_def load_json_def LanguageCatalog_def

text \<open>The concrete catalog is what the domain-aware loader builds from \<open>demo_json\<close>.\<close>

lemma demo_catalog_loaded:
  "load_domains_from_file (LanguageCatalog ''EN'' None) (Json demo_json) True
     = (Inr 2, demo_catalog ''EN'')"
  by (simp add: load_domains_from_file_def demo_json_def demo_catalog_def demo_store_def eval_defs)

lemma demo_inv: "store_inv (demo_catalog dl)"
  by (simp add: store_inv_def demo_catalog_def demo_store_def domain_normalized_def labels_ok_def
      lang_code_ok_def strip_def is_space_def is_lower_def lower_letters_def)

text \<open>
  C9. \<open>set_text\<close> with \<open>overwrite = False\<close> on a triple that already has an entry
  raises nothing and returns the catalog unchanged, so the old text stays and nothing
  else is touched; calling it again gives the same.
\<close>

theorem set_text_no_overwrite_is_noop:
  assumes "label \<noteq> []"
    and "normalize_lang c lang = Inr code"
    and "entry c (normalize_domain (Some (py_or domain (context_domain c)))) label code = Some old"
  shows "set_text c label lang (JStr t) False domain = Inr c \<and>
         (case set_text c label lang (JStr t) False domain of
            Inl e \<Rightarrow> False
          | Inr c' \<Rightarrow> set_text c' label lang (JStr t) False domain = Inr c')"
  using set_text_skip[OF assms] by simp

theorem set_text_no_overwrite_is_noop_witness:
  "''DATA_NOT_FOUND'' \<noteq> [] \<and>
   normalize_lang (demo_catalog ''EN'') ''en'' = Inr ''EN'' \<and>
   entry (demo_catalog ''EN'') ''GLOBAL'' ''DATA_NOT_FOUND'' ''EN'' = Some ''No data found'' \<and>
   set_text (demo_catalog ''EN'') ''DATA_NOT_FOUND'' ''en'' (JStr ''other'') False None
     = Inr (demo_catalog ''EN'')"
proof -
  have a: "''DATA_NOT_FOUND'' \<noteq> []" by simp
  have b: "normalize_lang (demo_catalog ''EN'') ''en'' = Inr ''EN''"
    by (simp add: demo_catalog_def eval_defs)
  have d: "normalize_domain (Some (py_or None (context_domain (demo_catalog ''EN'')))) = ''GLOBAL''"
    by (simp add: demo_catalog_def eval_defs)
  have e: "entry (demo_catalog ''EN'') ''GLOBAL'' ''DATA_NOT_FOUND'' ''EN'' = Some ''No data found''"
    by (simp add: entry_def demo_catalog_def demo_store_def)
  from e d have e': "entry (demo_catalog ''EN'')
      (normalize_domain (Some (py_or None (context_domain (demo_catalog ''EN'')))))
      ''DATA_NOT_FOUND'' ''EN'' = Some ''No data found''" by simp
  show ?thesis
    using set_text_no_overwrite_is_noop[OF a b e', of "''other''"] a b e by simp
qed

theorem store_invariant_preserved_witness:
  "store_inv (demo_catalog ''EN'') \<and>
   set_text (demo_catalog ''EN'') ''HELLO'' ''de'' (JStr ''Hallo'') True (Some '' GLOBAL.X '')
     = Inr ((demo_catalog ''EN'')
         \<lparr>data := demo_store @ [(''GLOBAL.X'', [(''HELLO'', [(''DE'', ''Hallo'')])])]\<rparr>) \<and>
   store_inv ((demo_catalog ''EN'')
     \<lparr>data := demo_store @ [(''GLOBAL.X'', [(''HELLO'', [(''DE'', ''Hallo'')])])]\<rparr>) \<and>
   store_inv (snd (load_from_file (demo_catalog ''EN'')
      (Json (JDict [(''HELLO'', JDict [(''de'', JStr ''Hallo'')])])) True))"
proof -
  have run: "set_text (demo_catalog ''EN'') ''HELLO'' ''de'' (JStr ''Hallo'') True
               (Some '' GLOBAL.X '')
     = Inr ((demo_catalog ''EN'')
         \<lparr>data := demo_store @ [(''GLOBAL.X'', [(''HELLO'', [(''DE'', ''Hallo'')])])]\<rparr>)"
    by (simp add: demo_catalog_def demo_store_def eval_defs)
  show ?thesis
    using store_invariant_preserved[OF demo_inv, where dl1 = "''EN''" and label = "''HELLO''"
        and lang = "''de''" and tx = "JStr ''Hallo''" and ow = True
        and domain = "Some '' GLOBAL.X ''"
        and f = "Json (JDict [(''HELLO'', JDict [(''de'', JStr ''Hallo'')])])"]
      demo_inv[of "''EN''"] run
    by simp
qed

section \<open>Loaders, reload and the service\<close>

lemmas loader_defs =
  load_from_file_def load_domains_from_file_def load_language_only_from_file_def
  reload_from_file_def add_file_def

text \<open>
  The innermost loops count every entry they pass to \<open>set_text\<close>: on success the
  count has grown by the number of entries, whatever \<open>overwrite\<close> is and whatever the
  store held.
\<close>

lemma legacy_langs_count:
  "legacy_langs c ow label items n = (Inr m, c') \<Longrightarrow> m = n + length items"
proof (induction items arbitrary: c n)
  case Nil
  then show ?case by simp
next
  case (Cons a items)
  obtain lang tx where a: "a = (lang, tx)" by (cases a)
  from Cons.prems obtain c1 where
    "legacy_langs c1 ow label items (n + 1) = (Inr m, c')"
    by (auto simp: a split: sum.splits)
  then have "m = (n + 1) + length items" by (rule Cons.IH)
  then show ?case by simp
qed

lemma domain_langs_count:
  "domain_langs c ow d label items n = (Inr m, c') \<Longrightarrow> m = n + length items"
proof (induction items arbitrary: c n)
  case Nil
  then show ?case by simp
next
  case (Cons a items)
  obtain lang tx where a: "a = (lang, tx)" by (cases a)
  from Cons.prems obtain c1 where
    "domain_langs c1 ow d label items (n + 1) = (Inr m, c')"
    by (auto simp: a split: sum.splits json.splits)
  then have "m = (n + 1) + length items" by (rule Cons.IH)
  then show ?case by simp
qed

lemma single_items_count:
  "single_items c ow code d items n = (Inr m, c') \<Longrightarrow> m = n + length items"
proof (induction items arbitrary: c n)
  case Nil
  then show ?case by simp
next
  case (Cons a items)
  obtain label tx where a: "a = (label, tx)" by (cases a)
  from Cons.prems obtain c1 where
    "single_items c1 ow code d items (n + 1) = (Inr m, c')"
    by (auto simp: a split: sum.splits json.splits)
  then have "m = (n + 1) + length items" by (rule Cons.IH)
  then show ?case by simp
qed

text \<open>
  C5, the code at a failing input. The catalog already holds \<open>DATA_NOT_FOUND\<close> at
  \<open>GLOBAL\<close> in \<open>EN\<close>; each loader, called with \<open>overwrite = False\<close> on a file whose
  only entry is that triple, skips the entry, leaves the catalog as it was, and returns 1:
  the count is incremented after every call of \<open>set_text\<close>, skipped or not.
\<close>

theorem loaders_count_skipped_entries:
  "load_from_file (demo_catalog ''EN'')
     (Json (JDict [(''DATA_NOT_FOUND'', JDict [(''EN'', JStr ''changed'')])])) False
     = (Inr 1, demo_catalog ''EN'') \<and>
   load_from_file (demo_catalog ''EN'')
     (Json (JList [JDict [(''label'', JStr ''DATA_NOT_FOUND''), (''lang'', JStr ''EN''),
                          (''text'', JStr ''changed'')]])) False
     = (Inr 1, demo_catalog ''EN'') \<and>
   load_domains_from_file (demo_catalog ''EN'')
     (Json (JDict [(''GLOBAL'',
        JDict [(''DATA_NOT_FOUND'', JDict [(''EN'', JStr ''changed'')])])])) False
     = (Inr 1, demo_catalog ''EN'') \<and>
   load_language_only_from_file (demo_catalog ''EN'') ''EN''
     (Json (JDict [(''DATA_NOT_FOUND'', JStr ''changed'')])) False None
     = (Inr 1, demo_catalog ''EN'') \<and>
   entry (demo_catalog ''EN'') ''GLOBAL'' ''DATA_NOT_FOUND'' ''EN'' = Some ''No data found''"
  by (simp add: loader_defs demo_catalog_def demo_store_def eval_defs entry_def)

text \<open>
  C2, as the code has it. \<open>reload_from_file\<close> clears the store and then loads into it.
  When the file is missing or not JSON, or its top level is neither an object nor a list,
  the call fails and the store is left empty; and in every case the outcome does not depend
  on what the store held before the reload.
\<close>

theorem reload_clears_first:
  "(\<forall>e. load_json f = Inl e \<longrightarrow> reload_from_file c f = (Inl e, c\<lparr>data := []\<rparr>)) \<and>
   (\<forall>v. f = Json v \<and> (\<forall>kvs. v \<noteq> JDict kvs) \<and> (\<forall>xs. v \<noteq> JList xs) \<longrightarrow>
      reload_from_file c f = (Inl (ValueError NotObjectOrList), c\<lparr>data := []\<rparr>)) \<and>
   reload_from_file (c\<lparr>data := d\<rparr>) f = reload_from_file c f"
  by (auto simp: reload_from_file_def load_from_file_def load_json_def split: json.splits)

theorem reload_clears_first_witness:
  "load_json NoFile = Inl FileNotFoundError \<and>
   reload_from_file (demo_catalog ''EN'') NoFile
     = (Inl FileNotFoundError, (demo_catalog ''EN'')\<lparr>data := []\<rparr>) \<and>
   reload_from_file (demo_catalog ''EN'') (Json (JNum 3))
     = (Inl (ValueError NotObjectOrList), (demo_catalog ''EN'')\<lparr>data := []\<rparr>)"
  using reload_clears_first[of NoFile "demo_catalog ''EN''"]
    reload_clears_first[of "Json (JNum 3)" "demo_catalog ''EN''"]
  by (simp add: load_json_def)

text \<open>
  C2 as stated fails: after a reload from a missing file the store is empty, not the
  store from before; and a file with an invalid second entry leaves a store that holds
  the first entry only, neither the old catalog nor the new one.
\<close>

theorem reload_failure_counterexample:
  "reload_from_file (demo_catalog ''EN'') NoFile
     = (Inl FileNotFoundError, (demo_catalog ''EN'')\<lparr>data := []\<rparr>) \<and>
   data (snd (reload_from_file (demo_catalog ''EN'') NoFile)) \<noteq> data (demo_catalog ''EN'') \<and>
   reload_from_file (demo_catalog ''EN'')
     (Json (JDict [(''A'', JDict [(''EN'', JStr ''x'')]), (''B'', JNum 5)]))
     = (Inl (ValueError (InvalidEntry ''B'')),
        (demo_catalog ''EN'')\<lparr>data := [(''GLOBAL'', [(''A'', [(''EN'', ''x'')])])]\<rparr>)"
  by (simp add: loader_defs demo_catalog_def demo_store_def eval_defs)

text \<open>
  C10. \<open>init_language\<close> loads into a fresh catalog and assigns the global only after the
  load: when the loader raises (in particular for a missing file or malformed JSON), the
  exception is passed on, the global is what it was, and \<open>get_language\<close> returns what it
  returned before. When the loader succeeds the global holds a catalog.
\<close>

theorem init_language_failure_keeps_global:
  "(\<forall>e. fst (if domain_aware
              then load_domains_from_file (LanguageCatalog dl al) f ow
              else load_from_file (LanguageCatalog dl al) f ow) = Inl e \<longrightarrow>
        init_language g f dl al ow ctx domain_aware = (Inl e, g) \<and>
        get_language (snd (init_language g f dl al ow ctx domain_aware)) = get_language g) \<and>
   (\<forall>e. load_json f = Inl e \<longrightarrow> init_language g f dl al ow ctx domain_aware = (Inl e, g)) \<and>
   (\<forall>n. fst (if domain_aware
              then load_domains_from_file (LanguageCatalog dl al) f ow
              else load_from_file (LanguageCatalog dl al) f ow) = Inr n \<longrightarrow>
        (\<exists>c. init_language g f dl al ow ctx domain_aware = (Inr (), Some c)))"
  by (auto simp: init_language_def Let_def load_domains_from_file_def load_from_file_def
      split: prod.splits sum.splits)

theorem init_language_failure_keeps_global_witness:
  "load_json NoFile = Inl FileNotFoundError \<and>
   init_language (Some (demo_catalog ''EN'')) NoFile ''DE'' (Some [''DE'', ''EN'']) True None True
     = (Inl FileNotFoundError, Some (demo_catalog ''EN'')) \<and>
   load_json BadJson = Inl JSONDecodeError \<and>
   init_language (Some (demo_catalog ''EN'')) BadJson ''DE'' None True (Some ''GLOBAL.CSV'') False
     = (Inl JSONDecodeError, Some (demo_catalog ''EN'')) \<and>
   fst (load_domains_from_file (LanguageCatalog ''DE'' None) (Json (JList [])) True)
     = Inl (ValueError DomainsNotObject) \<and>
   init_language (Some (demo_catalog ''EN'')) (Json (JList [])) ''DE'' None True None True
     = (Inl (ValueError DomainsNotObject), Some (demo_catalog ''EN'')) \<and>
   get_language (snd (init_language (Some (demo_catalog ''EN'')) (Json (JList [])) ''DE'' None True
      None True)) = Inr (demo_catalog ''EN'')"
proof -
  have a: "load_json NoFile = Inl FileNotFoundError" "load_json BadJson = Inl JSONDecodeError"
    by (simp_all add: load_json_def)
  have b: "fst (load_domains_from_file (LanguageCatalog ''DE'' None) (Json (JList [])) True)
     = Inl (ValueError DomainsNotObject)"
    by (simp add: load_domains_from_file_def load_json_def)
  show ?thesis
    using a b
      init_language_failure_keeps_global[of True "''DE''" "Some [''DE'', ''EN'']" NoFile True
        "Some (demo_catalog ''EN'')" None]
      init_language_failure_keeps_global[of False "''DE''" None BadJson True
        "Some (demo_catalog ''EN'')" "Some ''GLOBAL.CSV''"]
      init_language_failure_keeps_global[of True "''DE''" None "Json (JList [])" True
        "Some (demo_catalog ''EN'')" None]
    by (simp add: get_language_def)
qed

section \<open>Resolution: \<open>get_text\<close>\<close>

lemma first_some_None_iff: "first_some f xs = None \<longleftrightarrow> (\<forall>x \<in> set xs. f x = None)"
  by (induction xs) (auto split: option.splits)

lemma first_some_Some:
  "first_some f xs = Some y \<Longrightarrow>
     \<exists>i < length xs. f (xs ! i) = Some y \<and> (\<forall>j < i. f (xs ! j) = None)"
proof (induction xs)
  case Nil
  then show ?case by simp
next
  case (Cons x xs)
  show ?case
  proof (cases "f x")
    case None
    with Cons.prems have "first_some f xs = Some y" by simp
    then obtain i where i: "i < length xs" "f (xs ! i) = Some y" "\<forall>j < i. f (xs ! j) = None"
      using Cons.IH by blast
    have "\<forall>j < Suc i. f ((x # xs) ! j) = None"
      using None i(3) by (auto simp: less_Suc_eq_0_disj)
    with i(1,2) show ?thesis by (intro exI[of _ "Suc i"]) simp
  next
    case (Some z)
    with Cons.prems have "z = y" by simp
    with Some show ?thesis by (intro exI[of _ 0]) simp
  qed
qed

text \<open>
  The loop body of \<open>get_text\<close> tries the tiers in the order of the specification; the
  fallback code is never the empty string, because \<open>normalize_lang\<close> rejects it.
\<close>

lemma try_domain_spec:
  assumes "fb \<noteq> Some []"
  shows "try_domain c label primary fb d
       = first_some (\<lambda>l. entry c d label l) (lang_tiers primary fb (default_lang c))"
  using assms
  by (auto simp: try_domain_def entry_def lang_tiers_def Let_def split: option.splits)

lemma search_chain_spec:
  assumes "fb \<noteq> Some []"
  shows "search_chain c label primary fb chain
       = resolve_spec c label (lang_tiers primary fb (default_lang c)) chain"
  by (induction chain)
    (simp_all add: resolve_spec_def try_domain_spec[OF assms] split: option.splits)

lemma upper_not_Nil: "l \<noteq> [] \<Longrightarrow> upper l \<noteq> []"
  by (simp add: upper_def)

lemma lang_or_fallback_not_empty: "lang_or c fb None Some = Inr r \<Longrightarrow> r \<noteq> Some []"
  by (auto simp: lang_or_def normalize_lang_def Let_def upper_not_Nil
      split: option.splits if_splits)

lemma get_text_spec:
  assumes "label \<noteq> []"
    and "lang_or c lang (default_lang c) id = Inr primary"
    and "lang_or c fallback_lang None Some = Inr fb"
  shows "get_text c label lang fallback_lang dflt domain =
     (let chain = domain_chain (normalize_domain (Some (py_or domain (context_domain c)))) in
      case resolve_spec c label (lang_tiers primary fb (default_lang c)) chain of
        Some t \<Rightarrow> Inr t
      | None \<Rightarrow> (case dflt of Some t \<Rightarrow> Inr t
                 | None \<Rightarrow> Inl (KeyError (TextNotFound label chain))))"
  using assms lang_or_fallback_not_empty[OF assms(3)]
  by (simp add: get_text_def Let_def search_chain_spec)

lemma resolve_spec_dominance:
  assumes i: "i < length chain" and l: "l \<in> set tiers"
    and hit: "entry c (chain ! i) label l \<noteq> None"
  shows "\<exists>k \<le> i. \<exists>t. first_some (\<lambda>l. entry c (chain ! k) label l) tiers = Some t \<and>
            (\<forall>j < k. \<forall>l' \<in> set tiers. entry c (chain ! j) label l' = None) \<and>
            resolve_spec c label tiers chain = Some t"
proof -
  let ?f = "\<lambda>d. first_some (\<lambda>l. entry c d label l) tiers"
  have fi: "?f (chain ! i) \<noteq> None"
    using l hit by (auto simp: first_some_None_iff)
  have "chain ! i \<in> set chain" using i by simp
  with fi have "first_some ?f chain \<noteq> None"
    unfolding first_some_None_iff by blast
  then obtain t where t: "first_some ?f chain = Some t" by auto
  then obtain k where k: "k < length chain" "?f (chain ! k) = Some t"
    "\<forall>j < k. ?f (chain ! j) = None"
    using first_some_Some[of ?f chain t] by blast
  have "k \<le> i"
  proof (rule ccontr)
    assume "\<not> k \<le> i"
    then have "i < k" by simp
    with k(3) have "?f (chain ! i) = None" by blast
    with fi show False by simp
  qed
  moreover have "\<forall>j < k. \<forall>l' \<in> set tiers. entry c (chain ! j) label l' = None"
    using k(3) by (simp add: first_some_None_iff)
  ultimately show ?thesis using k(2) t by (auto simp: resolve_spec_def)
qed

lemma demo_chain:
  "domain_chain (normalize_domain (Some ''GLOBAL.DATABASE.ORACLE''))
     = [''GLOBAL.DATABASE.ORACLE'', ''GLOBAL.DATABASE'', ''GLOBAL'']"
  by (simp add: domain_chain_def normalize_domain_def strip_def is_space_def ROOT_DOMAIN_def
      Let_def)

lemma demo_resolution:
  assumes "data c = demo_store"
    and "normalize_lang c ''DE'' = Inr ''DE''" and "normalize_lang c ''EN'' = Inr ''EN''"
  shows "get_text c ''DATA_NOT_FOUND'' (Some ''DE'') None None (Some ''GLOBAL.DATABASE.ORACLE'')
           = Inr ''Keine Daten in Oracle''"
    and "default_lang c \<noteq> ''DE'' \<Longrightarrow>
         get_text c ''DATA_NOT_FOUND'' (Some ''EN'') None None (Some ''GLOBAL.DATABASE.ORACLE'')
           = Inr ''No data found''"
    and "default_lang c = ''DE'' \<Longrightarrow>
         get_text c ''DATA_NOT_FOUND'' (Some ''EN'') None None (Some ''GLOBAL.DATABASE.ORACLE'')
           = Inr ''Keine Daten in Oracle''"
  using assms
  by (simp_all add: get_text_def py_or_def lang_or_def demo_chain try_domain_def demo_store_def
      Let_def)

text \<open>
  A language argument fails validation exactly when it is a non-empty code, the catalog has
  an allow-list and the upper-cased code is not in it; an absent or empty argument is not
  validated at all.
\<close>

lemma lang_or_fails_iff:
  "lang_or c x other wrap = Inl e \<longleftrightarrow>
     (\<exists>l A. x = Some l \<and> l \<noteq> [] \<and> allowed c = Some A \<and> upper l \<notin> A \<and>
            e = ValueError (LangNotAllowed (upper l)))"
  by (auto simp: lang_or_def normalize_lang_def Let_def split: option.splits if_splits)

lemma get_text_lang_rejected:
  assumes "label \<noteq> []"
    and "lang_or c lang (default_lang c) id = Inl e \<or>
         (\<exists>p. lang_or c lang (default_lang c) id = Inr p) \<and>
         lang_or c fallback_lang None Some = Inl e"
  shows "get_text c label lang fallback_lang dflt domain = Inl e"
  using assms by (auto simp: get_text_def Let_def)

lemma english_only_loaded:
  "english_only_catalog =
     \<lparr> data = [(''GLOBAL'', [(''DATA_NOT_FOUND'', [(''EN'', ''No data found'')])])],
       default_lang = ''EN'', allowed = Some {''EN''}, context_domain = ''GLOBAL'' \<rparr>"
  by (simp add: english_only_catalog_def load_from_file_def eval_defs)

text \<open>
  C1, as the code has it. Take a non-empty label. When \<open>lang\<close> and \<open>fallback_lang\<close> pass
  validation, \<open>get_text\<close> returns the first text found going through the domain chain
  from the most specific domain to the root, and inside each domain through the tiers
  primary language, supplied fallback language, catalog default language (if not already
  tried). If some domain of the chain holds the label in a tried language, the text
  returned comes from that domain or from a more specific one, and every domain before
  the one it comes from has the label in none of the tried languages. When \<open>lang\<close> or
  \<open>fallback_lang\<close> fails validation (a non-empty code outside the allow-list), \<open>get_text\<close>
  raises that \<open>ValueError\<close> and returns no text, whatever the store holds. For the example
  store (\<open>DATA_NOT_FOUND\<close> only at \<open>GLOBAL\<close> in \<open>EN\<close> and at
  \<open>GLOBAL.DATABASE.ORACLE\<close> in \<open>DE\<close>) in a catalog that accepts \<open>DE\<close> and \<open>EN\<close>,
  resolving from the Oracle domain with \<open>lang = DE\<close> gives the Oracle text, and with
  \<open>lang = EN\<close> gives the \<open>GLOBAL\<close> text provided the catalog's default language is not
  \<open>DE\<close>.
\<close>

theorem get_text_domain_before_language:
  "(label \<noteq> [] \<and> lang_or c lang (default_lang c) id = Inr primary \<and>
    lang_or c fallback_lang None Some = Inr fb \<longrightarrow>
      (let chain = domain_chain (normalize_domain (Some (py_or domain (context_domain c))));
           tiers = lang_tiers primary fb (default_lang c)
       in get_text c label lang fallback_lang dflt domain =
            (case resolve_spec c label tiers chain of
               Some t \<Rightarrow> Inr t
             | None \<Rightarrow> (case dflt of Some t \<Rightarrow> Inr t
                        | None \<Rightarrow> Inl (KeyError (TextNotFound label chain)))) \<and>
          (\<forall>i < length chain. \<forall>l \<in> set tiers. entry c (chain ! i) label l \<noteq> None \<longrightarrow>
             (\<exists>k \<le> i. \<exists>t.
                first_some (\<lambda>l'. entry c (chain ! k) label l') tiers = Some t \<and>
                (\<forall>j < k. \<forall>l' \<in> set tiers. entry c (chain ! j) label l' = None) \<and>
                get_text c label lang fallback_lang dflt domain = Inr t)))) \<and>
   (label \<noteq> [] \<and>
    (lang_or c lang (default_lang c) id = Inl e \<or>
     (\<exists>p. lang_or c lang (default_lang c) id = Inr p) \<and>
     lang_or c fallback_lang None Some = Inl e) \<longrightarrow>
      get_text c label lang fallback_lang dflt domain = Inl e) \<and>
   ((lang_or c lang (default_lang c) id = Inl e \<longleftrightarrow>
       (\<exists>l A. lang = Some l \<and> l \<noteq> [] \<and> allowed c = Some A \<and> upper l \<notin> A \<and>
              e = ValueError (LangNotAllowed (upper l)))) \<and>
    (lang_or c fallback_lang None Some = Inl e \<longleftrightarrow>
       (\<exists>l A. fallback_lang = Some l \<and> l \<noteq> [] \<and> allowed c = Some A \<and> upper l \<notin> A \<and>
              e = ValueError (LangNotAllowed (upper l))))) \<and>
   (\<forall>c'. data c' = demo_store \<and> normalize_lang c' ''DE'' = Inr ''DE'' \<and>
         normalize_lang c' ''EN'' = Inr ''EN'' \<and> default_lang c' \<noteq> ''DE'' \<longrightarrow>
      get_text c' ''DATA_NOT_FOUND'' (Some ''DE'') None None (Some ''GLOBAL.DATABASE.ORACLE'')
        = Inr ''Keine Daten in Oracle'' \<and>
      get_text c' ''DATA_NOT_FOUND'' (Some ''EN'') None None (Some ''GLOBAL.DATABASE.ORACLE'')
        = Inr ''No data found'')"
proof -
  let ?chain = "domain_chain (normalize_domain (Some (py_or domain (context_domain c))))"
  let ?tiers = "lang_tiers primary fb (default_lang c)"
  have ok: "(let chain = ?chain; tiers = ?tiers
       in get_text c label lang fallback_lang dflt domain =
            (case resolve_spec c label tiers chain of
               Some t \<Rightarrow> Inr t
             | None \<Rightarrow> (case dflt of Some t \<Rightarrow> Inr t
                        | None \<Rightarrow> Inl (KeyError (TextNotFound label chain)))) \<and>
          (\<forall>i < length chain. \<forall>l \<in> set tiers. entry c (chain ! i) label l \<noteq> None \<longrightarrow>
             (\<exists>k \<le> i. \<exists>t.
                first_some (\<lambda>l'. entry c (chain ! k) label l') tiers = Some t \<and>
                (\<forall>j < k. \<forall>l' \<in> set tiers. entry c (chain ! j) label l' = None) \<and>
                get_text c label lang fallback_lang dflt domain = Inr t)))"
    if h: "label \<noteq> [] \<and> lang_or c lang (default_lang c) id = Inr primary \<and>
           lang_or c fallback_lang None Some = Inr fb"
  proof -
    from h have asm: "label \<noteq> []" "lang_or c lang (default_lang c) id = Inr primary"
      "lang_or c fallback_lang None Some = Inr fb" by simp_all
    have eq: "get_text c label lang fallback_lang dflt domain =
           (case resolve_spec c label ?tiers ?chain of
              Some t \<Rightarrow> Inr t
            | None \<Rightarrow> (case dflt of Some t \<Rightarrow> Inr t
                       | None \<Rightarrow> Inl (KeyError (TextNotFound label ?chain))))"
      using get_text_spec[OF asm] by (simp add: Let_def)
    have dom: "\<exists>k \<le> i. \<exists>t.
               first_some (\<lambda>l'. entry c (?chain ! k) label l') ?tiers = Some t \<and>
               (\<forall>j < k. \<forall>l' \<in> set ?tiers. entry c (?chain ! j) label l' = None) \<and>
               get_text c label lang fallback_lang dflt domain = Inr t"
      if "i < length ?chain" "l \<in> set ?tiers" "entry c (?chain ! i) label l \<noteq> None" for i l
    proof -
      from resolve_spec_dominance[OF that] obtain k t where
        "k \<le> i" "first_some (\<lambda>l. entry c (?chain ! k) label l) ?tiers = Some t"
        "\<forall>j < k. \<forall>l' \<in> set ?tiers. entry c (?chain ! j) label l' = None"
        "resolve_spec c label ?tiers ?chain = Some t" by blast
      then show ?thesis using eq by auto
    qed
    show ?thesis unfolding Let_def using eq dom by blast
  qed
  have bad: "get_text c label lang fallback_lang dflt domain = Inl e"
    if "label \<noteq> [] \<and>
        (lang_or c lang (default_lang c) id = Inl e \<or>
         (\<exists>p. lang_or c lang (default_lang c) id = Inr p) \<and>
         lang_or c fallback_lang None Some = Inl e)"
    using that get_text_lang_rejected[of label c lang e fallback_lang dflt domain] by simp
  have ex: "get_text c' ''DATA_NOT_FOUND'' (Some ''DE'') None None (Some ''GLOBAL.DATABASE.ORACLE'')
          = Inr ''Keine Daten in Oracle'' \<and>
        get_text c' ''DATA_NOT_FOUND'' (Some ''EN'') None None (Some ''GLOBAL.DATABASE.ORACLE'')
          = Inr ''No data found''"
    if "data c' = demo_store \<and> normalize_lang c' ''DE'' = Inr ''DE'' \<and>
         normalize_lang c' ''EN'' = Inr ''EN'' \<and> default_lang c' \<noteq> ''DE''" for c'
  proof -
    from that have t: "data c' = demo_store" "normalize_lang c' ''DE'' = Inr ''DE''"
      "normalize_lang c' ''EN'' = Inr ''EN''" "default_lang c' \<noteq> ''DE''" by simp_all
    show ?thesis using demo_resolution(1,2)[OF t(1,2,3)] t(4) by simp
  qed
  show ?thesis
  proof (intro conjI)
    show "label \<noteq> [] \<and> lang_or c lang (default_lang c) id = Inr primary \<and>
      lang_or c fallback_lang None Some = Inr fb \<longrightarrow>
      (let chain = ?chain; tiers = ?tiers
       in get_text c label lang fallback_lang dflt domain =
            (case resolve_spec c label tiers chain of
               Some t \<Rightarrow> Inr t
             | None \<Rightarrow> (case dflt of Some t \<Rightarrow> Inr t
                        | None \<Rightarrow> Inl (KeyError (TextNotFound label chain)))) \<and>
          (\<forall>i < length chain. \<forall>l \<in> set tiers. entry c (chain ! i) label l \<noteq> None \<longrightarrow>
             (\<exists>k \<le> i. \<exists>t.
                first_some (\<lambda>l'. entry c (chain ! k) label l') tiers = Some t \<and>
                (\<forall>j < k. \<forall>l' \<in> set tiers. entry c (chain ! j) label l' = None) \<and>
                get_text c label lang fallback_lang dflt domain = Inr t)))"
      using ok by (rule impI)
    show "label \<noteq> [] \<and>
      (lang_or c lang (default_lang c) id = Inl e \<or>
       (\<exists>p. lang_or c lang (default_lang c) id = Inr p) \<and>
       lang_or c fallback_lang None Some = Inl e) \<longrightarrow>
      get_text c label lang fallback_lang dflt domain = Inl e"
      using bad by (rule impI)
    show "lang_or c lang (default_lang c) id = Inl e \<longleftrightarrow>
       (\<exists>l A. lang = Some l \<and> l \<noteq> [] \<and> allowed c = Some A \<and> upper l \<notin> A \<and>
              e = ValueError (LangNotAllowed (upper l)))"
      by (rule lang_or_fails_iff)
    show "lang_or c fallback_lang None Some = Inl e \<longleftrightarrow>
       (\<exists>l A. fallback_lang = Some l \<and> l \<noteq> [] \<and> allowed c = Some A \<and> upper l \<notin> A \<and>
              e = ValueError (LangNotAllowed (upper l)))"
      by (rule lang_or_fails_iff)
    show "\<forall>c'. data c' = demo_store \<and> normalize_lang c' ''DE'' = Inr ''DE'' \<and>
         normalize_lang c' ''EN'' = Inr ''EN'' \<and> default_lang c' \<noteq> ''DE'' \<longrightarrow>
      get_text c' ''DATA_NOT_FOUND'' (Some ''DE'') None None (Some ''GLOBAL.DATABASE.ORACLE'')
        = Inr ''Keine Daten in Oracle'' \<and>
      get_text c' ''DATA_NOT_FOUND'' (Some ''EN'') None None (Some ''GLOBAL.DATABASE.ORACLE'')
        = Inr ''No data found''"
      using ex by (intro allI impI)
  qed
qed

theorem get_text_domain_before_language_witness:
  "''DATA_NOT_FOUND'' \<noteq> [] \<and>
   lang_or (demo_catalog ''FR'') (Some ''en'') (default_lang (demo_catalog ''FR'')) id = Inr ''EN'' \<and>
   lang_or (demo_catalog ''FR'') (Some ''de'') None Some = Inr (Some ''DE'') \<and>
   lang_tiers ''EN'' (Some ''DE'') (default_lang (demo_catalog ''FR'')) = [''EN'', ''DE'', ''FR''] \<and>
   get_text (demo_catalog ''FR'') ''DATA_NOT_FOUND'' (Some ''en'') (Some ''de'') None
      (Some ''GLOBAL.DATABASE.ORACLE'') = Inr ''Keine Daten in Oracle'' \<and>
   get_text (demo_catalog ''EN'') ''DATA_NOT_FOUND'' (Some ''EN'') None None
      (Some ''GLOBAL.DATABASE.ORACLE'') = Inr ''No data found'' \<and>
   entry english_only_catalog ''GLOBAL'' ''DATA_NOT_FOUND'' ''EN'' = Some ''No data found'' \<and>
   lang_or english_only_catalog (Some ''fr'') (default_lang english_only_catalog) id
      = Inl (ValueError (LangNotAllowed ''FR'')) \<and>
   get_text english_only_catalog ''DATA_NOT_FOUND'' (Some ''fr'') None None None
      = Inl (ValueError (LangNotAllowed ''FR''))"
proof -
  have a: "''DATA_NOT_FOUND'' \<noteq> []" by simp
  have b: "lang_or (demo_catalog ''FR'') (Some ''en'') (default_lang (demo_catalog ''FR'')) id
             = Inr ''EN''"
    by (simp add: lang_or_def demo_catalog_def eval_defs)
  have c: "lang_or (demo_catalog ''FR'') (Some ''de'') None Some = Inr (Some ''DE'')"
    by (simp add: lang_or_def demo_catalog_def eval_defs)
  have t: "lang_tiers ''EN'' (Some ''DE'') (default_lang (demo_catalog ''FR''))
             = [''EN'', ''DE'', ''FR'']"
    by (simp add: lang_tiers_def demo_catalog_def)
  have r: "resolve_spec (demo_catalog ''FR'') ''DATA_NOT_FOUND'' [''EN'', ''DE'', ''FR'']
             [''GLOBAL.DATABASE.ORACLE'', ''GLOBAL.DATABASE'', ''GLOBAL'']
           = Some ''Keine Daten in Oracle''"
    by (simp add: resolve_spec_def entry_def demo_catalog_def demo_store_def)
  have n: "data (demo_catalog ''EN'') = demo_store \<and>
    normalize_lang (demo_catalog ''EN'') ''DE'' = Inr ''DE'' \<and>
    normalize_lang (demo_catalog ''EN'') ''EN'' = Inr ''EN'' \<and>
    default_lang (demo_catalog ''EN'') \<noteq> ''DE''"
    by (simp add: demo_catalog_def eval_defs)
  have en: "entry english_only_catalog ''GLOBAL'' ''DATA_NOT_FOUND'' ''EN''
              = Some ''No data found''"
    by (simp add: english_only_loaded entry_def)
  have bad: "lang_or english_only_catalog (Some ''fr'') (default_lang english_only_catalog) id
      = Inl (ValueError (LangNotAllowed ''FR''))"
    by (simp add: english_only_loaded lang_or_def eval_defs)
  have g1: "get_text (demo_catalog ''FR'') ''DATA_NOT_FOUND'' (Some ''en'') (Some ''de'') None
      (Some ''GLOBAL.DATABASE.ORACLE'') = Inr ''Keine Daten in Oracle''"
    using get_text_domain_before_language[where c = "demo_catalog ''FR''"
        and label = "''DATA_NOT_FOUND''" and lang = "Some ''en''" and fallback_lang = "Some ''de''"
        and primary = "''EN''" and fb = "Some ''DE''" and dflt = None
        and domain = "Some ''GLOBAL.DATABASE.ORACLE''", THEN conjunct1, rule_format,
        OF conjI[OF a conjI[OF b c]]]
    by (simp add: Let_def t r py_or_def demo_chain)
  have g2: "get_text (demo_catalog ''EN'') ''DATA_NOT_FOUND'' (Some ''EN'') None None
      (Some ''GLOBAL.DATABASE.ORACLE'') = Inr ''No data found''"
    using get_text_domain_before_language[THEN conjunct2, THEN conjunct2, THEN conjunct2,
        rule_format, OF n]
    by (rule conjunct2)
  have g3: "get_text english_only_catalog ''DATA_NOT_FOUND'' (Some ''fr'') None None None
      = Inl (ValueError (LangNotAllowed ''FR''))"
    using get_text_domain_before_language[where c = english_only_catalog
        and label = "''DATA_NOT_FOUND''" and lang = "Some ''fr''" and fallback_lang = None
        and e = "ValueError (LangNotAllowed ''FR'')" and dflt = None and domain = None,
        THEN conjunct2, THEN conjunct1, rule_format, OF conjI[OF a disjI1[OF bad]]]
    by simp
  show ?thesis
    by (intro conjI) (rule a b c t g1 g2 en bad g3)+
qed

text \<open>
  C1 as stated fails in its example when the catalog's default language is \<open>DE\<close>:
  resolving with \<open>lang = EN\<close> from the Oracle domain finds no \<open>EN\<close> text there, then
  finds the Oracle \<open>DE\<close> text in the default-language tier, and returns it.
\<close>

theorem get_text_default_language_counterexample:
  "data (demo_catalog ''DE'') = demo_store \<and>
   entry (demo_catalog ''DE'') ''GLOBAL'' ''DATA_NOT_FOUND'' ''EN'' = Some ''No data found'' \<and>
   entry (demo_catalog ''DE'') ''GLOBAL.DATABASE.ORACLE'' ''DATA_NOT_FOUND'' ''DE''
     = Some ''Keine Daten in Oracle'' \<and>
   get_text (demo_catalog ''DE'') ''DATA_NOT_FOUND'' (Some ''EN'') None None
      (Some ''GLOBAL.DATABASE.ORACLE'') = Inr ''Keine Daten in Oracle'' \<and>
   get_text (demo_catalog ''DE'') ''DATA_NOT_FOUND'' (Some ''EN'') None None
      (Some ''GLOBAL.DATABASE.ORACLE'') \<noteq> Inr ''No data found''"
proof -
  have n: "normalize_lang (demo_catalog ''DE'') ''DE'' = Inr ''DE''"
    "normalize_lang (demo_catalog ''DE'') ''EN'' = Inr ''EN''"
    "data (demo_catalog ''DE'') = demo_store" "default_lang (demo_catalog ''DE'') = ''DE''"
    by (simp_all add: demo_catalog_def eval_defs)
  show ?thesis
    using demo_resolution(3)[OF n(3,1,2,4)]
    by (simp add: entry_def demo_catalog_def demo_store_def)
qed

lemma resolve_spec_None:
  "(\<forall>d \<in> set chain. \<forall>l \<in> set tiers. entry c d label l = None) \<Longrightarrow>
   resolve_spec c label tiers chain = None"
  by (simp add: resolve_spec_def first_some_None_iff)

lemma lang_or_no_allow_list: "allowed c = None \<Longrightarrow> \<exists>r. lang_or c x other wrap = Inr r"
  by (auto simp: lang_or_def normalize_lang_def Let_def split: option.splits)

lemma get_text_with_default:
  assumes "label = [] \<or> (\<exists>p f. lang_or c lang (default_lang c) id = Inr p \<and>
                                 lang_or c fallback_lang None Some = Inr f)"
  shows "\<exists>r. get_text c label lang fallback_lang (Some t) domain = Inr r"
proof (cases "label = []")
  case True
  then show ?thesis by (simp add: get_text_def)
next
  case False
  with assms obtain p f where pf: "lang_or c lang (default_lang c) id = Inr p"
    "lang_or c fallback_lang None Some = Inr f" by blast
  show ?thesis
    using get_text_spec[OF False pf, of "Some t" domain]
    by (auto simp: Let_def split: option.splits)
qed

text \<open>
  C3, as the code has it. With an empty label \<open>get_text\<close> returns the default if one is
  supplied and raises the missing-label \<open>KeyError\<close> otherwise. With a non-empty label
  and language arguments that pass validation, if no domain of the chain holds the label
  in a tried language it returns the default if supplied and otherwise raises the
  not-found \<open>KeyError\<close> that carries the label and the whole chain. With a default it
  never raises when the label is empty or the language arguments pass validation, in
  particular when the catalog has no allow-list.
\<close>

theorem get_text_default_and_errors:
  "(label = [] \<longrightarrow>
      get_text c label lang fallback_lang dflt domain =
        (case dflt of Some t \<Rightarrow> Inr t | None \<Rightarrow> Inl (KeyError MissingLabel))) \<and>
   (label \<noteq> [] \<and> lang_or c lang (default_lang c) id = Inr primary \<and>
    lang_or c fallback_lang None Some = Inr fb \<and>
    (\<forall>d \<in> set (domain_chain (normalize_domain (Some (py_or domain (context_domain c))))).
       \<forall>l \<in> set (lang_tiers primary fb (default_lang c)). entry c d label l = None) \<longrightarrow>
      get_text c label lang fallback_lang dflt domain =
        (case dflt of
           Some t \<Rightarrow> Inr t
         | None \<Rightarrow> Inl (KeyError (TextNotFound label
                     (domain_chain (normalize_domain (Some (py_or domain (context_domain c))))))))) \<and>
   (dflt \<noteq> None \<and>
    (label = [] \<or> (\<exists>p f. lang_or c lang (default_lang c) id = Inr p \<and>
                          lang_or c fallback_lang None Some = Inr f)) \<longrightarrow>
      (\<exists>r. get_text c label lang fallback_lang dflt domain = Inr r)) \<and>
   (dflt \<noteq> None \<and> allowed c = None \<longrightarrow>
      (\<exists>r. get_text c label lang fallback_lang dflt domain = Inr r))"
proof (intro conjI impI)
  assume "label = []"
  then show "get_text c label lang fallback_lang dflt domain =
        (case dflt of Some t \<Rightarrow> Inr t | None \<Rightarrow> Inl (KeyError MissingLabel))"
    by (simp add: get_text_def)
next
  let ?chain = "domain_chain (normalize_domain (Some (py_or domain (context_domain c))))"
  assume a: "label \<noteq> [] \<and> lang_or c lang (default_lang c) id = Inr primary \<and>
    lang_or c fallback_lang None Some = Inr fb \<and>
    (\<forall>d \<in> set ?chain. \<forall>l \<in> set (lang_tiers primary fb (default_lang c)). entry c d label l = None)"
  then have "resolve_spec c label (lang_tiers primary fb (default_lang c)) ?chain = None"
    by (intro resolve_spec_None) blast
  then show "get_text c label lang fallback_lang dflt domain =
        (case dflt of Some t \<Rightarrow> Inr t
         | None \<Rightarrow> Inl (KeyError (TextNotFound label ?chain)))"
    using get_text_spec[of label c lang primary fallback_lang fb dflt domain] a
    by (simp add: Let_def)
next
  assume a: "dflt \<noteq> None \<and>
    (label = [] \<or> (\<exists>p f. lang_or c lang (default_lang c) id = Inr p \<and>
                          lang_or c fallback_lang None Some = Inr f))"
  then obtain t where "dflt = Some t" by auto
  then show "\<exists>r. get_text c label lang fallback_lang dflt domain = Inr r"
    using get_text_with_default[of label c lang fallback_lang t domain] a by blast
next
  assume a: "dflt \<noteq> None \<and> allowed c = None"
  then obtain t where t: "dflt = Some t" by auto
  from a have "\<exists>p. lang_or c lang (default_lang c) id = Inr p"
    "\<exists>f. lang_or c fallback_lang None Some = Inr f"
    by (simp_all add: lang_or_no_allow_list)
  then show "\<exists>r. get_text c label lang fallback_lang dflt domain = Inr r"
    using get_text_with_default[of label c lang fallback_lang t domain] t by blast
qed

theorem get_text_default_and_errors_witness:
  "get_text (demo_catalog ''EN'') [] None None (Some ''x'') None = Inr ''x'' \<and>
   get_text (demo_catalog ''EN'') [] None None None None = Inl (KeyError MissingLabel) \<and>
   get_text (demo_catalog ''EN'') ''NO_SUCH_LABEL'' None None None None
     = Inl (KeyError (TextNotFound ''NO_SUCH_LABEL'' [''GLOBAL''])) \<and>
   get_text (demo_catalog ''EN'') ''NO_SUCH_LABEL'' None None (Some ''x'') None = Inr ''x''"
proof -
  let ?c = "demo_catalog ''EN''"
  have ch: "domain_chain (normalize_domain (Some (py_or None (context_domain ?c)))) = [''GLOBAL'']"
    by (simp add: demo_catalog_def domain_chain_def eval_defs)
  have lo: "lang_or ?c None (default_lang ?c) id = Inr ''EN''"
    "lang_or ?c None None Some = Inr None"
    by (simp_all add: lang_or_def demo_catalog_def)
  have ti: "lang_tiers ''EN'' None (default_lang ?c) = [''EN'']"
    by (simp add: lang_tiers_def demo_catalog_def)
  have miss: "\<forall>d \<in> set [''GLOBAL'']. \<forall>l \<in> set [''EN'']. entry ?c d ''NO_SUCH_LABEL'' l = None"
    by (simp add: entry_def demo_catalog_def demo_store_def)
  have ne: "''NO_SUCH_LABEL'' \<noteq> []" by simp
  have e1: "get_text ?c [] None None (Some ''x'') None = Inr ''x''"
    using get_text_default_and_errors[of "[]" ?c None None "Some ''x''" None] by simp
  have e2: "get_text ?c [] None None None None = Inl (KeyError MissingLabel)"
    using get_text_default_and_errors[of "[]" ?c None None None None] by simp
  have e3: "get_text ?c ''NO_SUCH_LABEL'' None None None None
     = Inl (KeyError (TextNotFound ''NO_SUCH_LABEL'' [''GLOBAL'']))"
    using get_text_default_and_errors[of "''NO_SUCH_LABEL''" ?c None None None None "''EN''" None]
      ne lo ti miss ch by simp
  have e4: "get_text ?c ''NO_SUCH_LABEL'' None None (Some ''x'') None = Inr ''x''"
    using get_text_default_and_errors[of "''NO_SUCH_LABEL''" ?c None None "Some ''x''" None
        "''EN''" None]
      ne lo ti miss ch by simp
  from e1 e2 e3 e4 show ?thesis by simp
qed

text \<open>
  C3 as stated fails in its last sentence: with a default supplied, a language outside
  the allow-list still raises \<open>ValueError\<close>.
\<close>

theorem get_text_default_raises_counterexample:
  "allowed (LanguageCatalog ''EN'' (Some [''EN''])) = Some {''EN''} \<and>
   get_text (LanguageCatalog ''EN'' (Some [''EN''])) ''NO_SUCH_LABEL'' (Some ''FR'') None
      (Some ''x'') None = Inl (ValueError (LangNotAllowed ''FR''))"
  by (simp add: get_text_def lang_or_def eval_defs)

section \<open>Listing: \<open>list_labels\<close>\<close>

lemma in_concat_labels:
  "x \<in> set (concat (map (\<lambda>(d, labels_map). if P d then map fst labels_map else []) st))
     \<longleftrightarrow> (\<exists>d m. (d, m) \<in> set st \<and> P d \<and> x \<in> fst ` set m)"
proof (induction st)
  case Nil
  show ?case by simp
next
  case (Cons a st)
  let ?f = "\<lambda>(d, labels_map). if P d then map fst labels_map else []"
  obtain d m where a: "a = (d, m)" by (cases a)
  have here: "x \<in> set (?f a) \<longleftrightarrow> P d \<and> x \<in> fst ` set m"
    by (simp add: a)
  have "x \<in> set (concat (map ?f (a # st))) \<longleftrightarrow>
          x \<in> set (?f a) \<or> x \<in> set (concat (map ?f st))"
    by (simp only: list.map concat.simps set_append Un_iff)
  also have "\<dots> \<longleftrightarrow> (P d \<and> x \<in> fst ` set m) \<or>
          (\<exists>d' m'. (d', m') \<in> set st \<and> P d' \<and> x \<in> fst ` set m')"
    by (simp only: here Cons.IH)
  also have "\<dots> \<longleftrightarrow> (\<exists>d' m'. (d', m') \<in> set (a # st) \<and> P d' \<and> x \<in> fst ` set m')"
    unfolding a by (simp only: list.set insert_iff prod.inject) blast
  finally show ?case .
qed

lemma labels_union_distinct:
  assumes "distinct (map fst st)"
  shows "set (concat (map (\<lambda>(d, labels_map). if P d then map fst labels_map else []) st))
       = (\<Union>k \<in> {k \<in> fst ` set st. P k}.
            (case map_of st k of None \<Rightarrow> {} | Some m \<Rightarrow> fst ` set m))"
proof (intro equalityI subsetI)
  fix x
  assume "x \<in> set (concat (map (\<lambda>(d, labels_map). if P d then map fst labels_map else []) st))"
  then obtain d m where dm: "(d, m) \<in> set st" "P d" "x \<in> fst ` set m"
    unfolding in_concat_labels by blast
  then have "map_of st d = Some m" using assms by simp
  moreover have "d \<in> fst ` set st" using dm(1) by (rule rev_image_eqI) simp
  ultimately show "x \<in> (\<Union>k \<in> {k \<in> fst ` set st. P k}.
            (case map_of st k of None \<Rightarrow> {} | Some m \<Rightarrow> fst ` set m))"
    using dm(2,3) by (intro UN_I[of d]) simp_all
next
  fix x
  assume "x \<in> (\<Union>k \<in> {k \<in> fst ` set st. P k}.
            (case map_of st k of None \<Rightarrow> {} | Some m \<Rightarrow> fst ` set m))"
  then obtain k where k: "P k"
    "x \<in> (case map_of st k of None \<Rightarrow> {} | Some m \<Rightarrow> fst ` set m)" by blast
  then obtain m where m: "map_of st k = Some m" "x \<in> fst ` set m"
    by (cases "map_of st k") simp_all
  note km = k(1) m
  then have "(k, m) \<in> set st" by (auto dest: map_of_SomeD)
  with km show
    "x \<in> set (concat (map (\<lambda>(d, labels_map). if P d then map fst labels_map else []) st))"
    unfolding in_concat_labels by blast
qed

lemma dict_store_bucket:
  "dict_store st \<Longrightarrow> distinct (map fst (case map_of st d of None \<Rightarrow> [] | Some m \<Rightarrow> m))"
  by (auto simp: dict_store_def split: option.splits dest!: map_of_SomeD)

text \<open>
  C7. For a store that is a dictionary at every level and a domain \<open>d\<close>, normalized to
  \<open>dm\<close>: the recursive listing is the sorted list, without repetition, of the labels
  stored directly under \<open>dm\<close> together with those under every stored domain that starts
  with \<open>dm\<close> followed by a dot; the direct listing is the sorted list, without
  repetition, of the labels stored under exactly \<open>dm\<close>. The prefix with the dot does
  not match \<open>GLOBALIZATION\<close> for \<open>GLOBAL\<close>. A label stored under
  \<open>GLOBAL.DATABASE.ORACLE\<close> is in the recursive listing of \<open>GLOBAL.DATABASE\<close>, and a
  label not stored directly under \<open>GLOBAL.DATABASE\<close> is not in its direct listing.
\<close>

theorem list_labels_sorted_union:
  assumes "dict_store (data c)"
  shows
    "(let dm = normalize_domain (Some d) in
       set (list_labels c (Some d) True)
         = labels_at c dm \<union>
           (\<Union>k \<in> {k \<in> fst ` set (data c). prefix (dm @ ''.'') k}. labels_at c k) \<and>
       sorted (list_labels c (Some d) True) \<and> distinct (list_labels c (Some d) True) \<and>
       set (list_labels c (Some d) False) = labels_at c dm \<and>
       sorted (list_labels c (Some d) False) \<and> distinct (list_labels c (Some d) False)) \<and>
     \<not> prefix (''GLOBAL'' @ ''.'') ''GLOBALIZATION'' \<and>
     (\<forall>label. label \<in> labels_at c ''GLOBAL.DATABASE.ORACLE'' \<longrightarrow>
        label \<in> set (list_labels c (Some ''GLOBAL.DATABASE'') True)) \<and>
     (\<forall>label. label \<notin> labels_at c ''GLOBAL.DATABASE'' \<longrightarrow>
        label \<notin> set (list_labels c (Some ''GLOBAL.DATABASE'') False))"
proof -
  have dk: "distinct (map fst (data c))" using assms by (simp add: dict_store_def)
  have rec: "set (list_labels c (Some x) True)
         = labels_at c (normalize_domain (Some x)) \<union>
           (\<Union>k \<in> {k \<in> fst ` set (data c). prefix (normalize_domain (Some x) @ ''.'') k}.
              labels_at c k)" for x
    using labels_union_distinct[OF dk, of "prefix (normalize_domain (Some x) @ ''.'')"]
    by (simp add: list_labels_def Let_def labels_at_def split: option.splits)
  have dir: "set (list_labels c (Some x) False) = labels_at c (normalize_domain (Some x))" for x
    by (simp add: list_labels_def Let_def labels_at_def split: option.splits)
  have srt: "sorted (list_labels c (Some x) r)" for x r
    by (simp add: list_labels_def Let_def)
  have d1: "distinct (list_labels c (Some x) True)" for x
    by (simp add: list_labels_def Let_def)
  have d2: "distinct (list_labels c (Some x) False)" for x
    using dict_store_bucket[OF assms, of "normalize_domain (Some x)"]
    by (simp add: list_labels_def Let_def)
  have nd: "normalize_domain (Some ''GLOBAL.DATABASE'') = ''GLOBAL.DATABASE''"
    by (simp add: eval_defs)
  have ora: "label \<in> set (list_labels c (Some ''GLOBAL.DATABASE'') True)"
    if "label \<in> labels_at c ''GLOBAL.DATABASE.ORACLE''" for label
  proof -
    have "map_of (data c) ''GLOBAL.DATABASE.ORACLE'' \<noteq> None"
      using that by (cases "map_of (data c) ''GLOBAL.DATABASE.ORACLE''") (simp_all add: labels_at_def)
    then have key: "''GLOBAL.DATABASE.ORACLE'' \<in> fst ` set (data c)"
      by (simp add: map_of_eq_None_iff)
    have pre: "prefix (''GLOBAL.DATABASE'' @ ''.'') ''GLOBAL.DATABASE.ORACLE''" by simp
    have "label \<in> (\<Union>k \<in> {k \<in> fst ` set (data c). prefix (''GLOBAL.DATABASE'' @ ''.'') k}.
              labels_at c k)"
      using key pre that by (intro UN_I[of "''GLOBAL.DATABASE.ORACLE''"] CollectI conjI)
    then show ?thesis unfolding rec nd by (rule UnI2)
  qed
  have notdir: "label \<notin> set (list_labels c (Some ''GLOBAL.DATABASE'') False)"
    if "label \<notin> labels_at c ''GLOBAL.DATABASE''" for label
    using that unfolding dir nd .
  have np: "\<not> prefix (''GLOBAL'' @ ''.'') ''GLOBALIZATION''" by simp
  have general:
    "set (list_labels c (Some d) True)
         = labels_at c (normalize_domain (Some d)) \<union>
           (\<Union>k \<in> {k \<in> fst ` set (data c). prefix (normalize_domain (Some d) @ ''.'') k}.
              labels_at c k) \<and>
       sorted (list_labels c (Some d) True) \<and> distinct (list_labels c (Some d) True) \<and>
       set (list_labels c (Some d) False) = labels_at c (normalize_domain (Some d)) \<and>
       sorted (list_labels c (Some d) False) \<and> distinct (list_labels c (Some d) False)"
    using rec[of d] dir[of d] srt[of d True] srt[of d False] d1[of d] d2[of d]
    by (intro conjI)
  have ex1: "\<forall>label. label \<in> labels_at c ''GLOBAL.DATABASE.ORACLE'' \<longrightarrow>
        label \<in> set (list_labels c (Some ''GLOBAL.DATABASE'') True)"
    using ora by (intro allI impI)
  have ex2: "\<forall>label. label \<notin> labels_at c ''GLOBAL.DATABASE'' \<longrightarrow>
        label \<notin> set (list_labels c (Some ''GLOBAL.DATABASE'') False)"
    using notdir by (intro allI impI)
  have rest: "\<not> prefix (''GLOBAL'' @ ''.'') ''GLOBALIZATION'' \<and>
     (\<forall>label. label \<in> labels_at c ''GLOBAL.DATABASE.ORACLE'' \<longrightarrow>
        label \<in> set (list_labels c (Some ''GLOBAL.DATABASE'') True)) \<and>
     (\<forall>label. label \<notin> labels_at c ''GLOBAL.DATABASE'' \<longrightarrow>
        label \<notin> set (list_labels c (Some ''GLOBAL.DATABASE'') False))"
    by (rule conjI[OF np conjI[OF ex1 ex2]])
  show ?thesis
    apply (subst Let_def)
    apply (rule conjI)
     apply (rule general)
    apply (rule rest)
    done
qed

text \<open>\<open>set_text\<close> keeps the store a dictionary at every level.\<close>

lemma distinct_setdefault:
  "distinct (map fst m) \<Longrightarrow> setdefault m k v = (x, m') \<Longrightarrow> distinct (map fst m')"
  by (auto simp: setdefault_def map_of_eq_None_iff split: option.splits)

lemma dict_store_alt:
  "dict_store st = (distinct (map fst st) \<and> (\<forall>(d, m) \<in> set st. labels_dict m))"
  by (simp add: dict_store_def labels_dict_def)

lemma set_text_dict_store:
  assumes ds: "dict_store (data c)" and st: "set_text c label lang tx ow domain = Inr c'"
  shows "dict_store (data c')"
proof -
  let ?dom = "normalize_domain (Some (py_or domain (context_domain c)))"
  from st obtain code t where nl: "normalize_lang c lang = Inr code" and tx: "tx = JStr t"
    by (auto simp: set_text_def split: if_splits sum.splits json.splits)
  obtain bucket_labels d1 where sd1: "setdefault (data c) ?dom [] = (bucket_labels, d1)"
    by (cases "setdefault (data c) ?dom []") auto
  obtain bucket_langs bl1 where sd2: "setdefault bucket_labels label [] = (bucket_langs, bl1)"
    by (cases "setdefault bucket_labels label []") auto
  have empty_ok: "labels_dict []" by (simp add: labels_dict_def)
  have d1k: "distinct (map fst d1)"
    using ds distinct_setdefault[OF _ sd1] by (simp add: dict_store_alt)
  have d1v: "\<forall>(d, m) \<in> set d1. labels_dict m"
    using ds in_set_setdefault[OF sd1] empty_ok by (fastforce simp: dict_store_alt)
  have blok: "labels_dict bucket_labels"
    using setdefault_value[OF sd1] ds empty_ok by (fastforce simp: dict_store_alt)
  have bl1k: "distinct (map fst bl1)"
    using blok distinct_setdefault[OF _ sd2] by (simp add: labels_dict_def)
  have bl1v: "\<forall>(l, langs) \<in> set bl1. distinct (map fst langs)"
    using in_set_setdefault[OF sd2] blok by (fastforce simp: labels_dict_def)
  have langsok: "distinct (map fst bucket_langs)"
    using setdefault_value[OF sd2] blok by (fastforce simp: labels_dict_def)
  have langs2: "distinct (map fst (AList.update code t bucket_langs))"
    using langsok by (rule distinct_update)
  have bl1ok: "labels_dict bl1" using bl1k bl1v by (simp add: labels_dict_def)
  have bl2ok: "labels_dict (AList.update label (AList.update code t bucket_langs) bl1)"
    using bl1k bl1v langs2 in_set_update[of _ label "AList.update code t bucket_langs" bl1]
    unfolding labels_dict_def by (fastforce simp: distinct_update)
  have r1: "dict_store (AList.update ?dom bl1 d1)"
    using d1k d1v bl1ok in_set_update[of _ ?dom bl1 d1]
    unfolding dict_store_alt by (fastforce simp: distinct_update)
  have r2: "dict_store (AList.update ?dom
              (AList.update label (AList.update code t bucket_langs) bl1) d1)"
    using d1k d1v bl2ok
      in_set_update[of _ ?dom "AList.update label (AList.update code t bucket_langs) bl1" d1]
    unfolding dict_store_alt by (fastforce simp: distinct_update)
  from st nl tx sd1 sd2 have
    "c' = c\<lparr>data := AList.update ?dom bl1 d1\<rparr> \<or>
     c' = c\<lparr>data := AList.update ?dom
                 (AList.update label (AList.update code t bucket_langs) bl1) d1\<rparr>"
    by (auto simp: set_text_def Let_def split: if_splits)
  then show ?thesis using r1 r2 by auto
qed

lemma listing_dict: "dict_store (data listing_catalog)"
  by (simp add: dict_store_def listing_catalog_def)

theorem list_labels_sorted_union_witness:
  "dict_store (data listing_catalog) \<and>
   list_labels listing_catalog (Some ''GLOBAL.DATABASE'') True
     = [''DATA_NOT_FOUND'', ''DB_ERROR'', ''ORA_ERROR''] \<and>
   list_labels listing_catalog (Some ''GLOBAL.DATABASE'') False = [''DB_ERROR''] \<and>
   list_labels listing_catalog (Some ''GLOBAL'') True
     = [''DATA_NOT_FOUND'', ''DB_ERROR'', ''ORA_ERROR'', ''USAGE''] \<and>
   ''ORA_ERROR'' \<in> labels_at listing_catalog ''GLOBAL.DATABASE.ORACLE'' \<and>
   ''ORA_ERROR'' \<in> set (list_labels listing_catalog (Some ''GLOBAL.DATABASE'') True) \<and>
   ''ORA_ERROR'' \<notin> set (list_labels listing_catalog (Some ''GLOBAL.DATABASE'') False) \<and>
   sorted (list_labels listing_catalog (Some ''GLOBAL'') True)"
proof -
  have e1: "list_labels listing_catalog (Some ''GLOBAL.DATABASE'') True
     = [''DATA_NOT_FOUND'', ''DB_ERROR'', ''ORA_ERROR'']"
    by (simp add: list_labels_def listing_catalog_def eval_defs)
  have e2: "list_labels listing_catalog (Some ''GLOBAL.DATABASE'') False = [''DB_ERROR'']"
    by (simp add: list_labels_def listing_catalog_def eval_defs)
  have e3: "list_labels listing_catalog (Some ''GLOBAL'') True
     = [''DATA_NOT_FOUND'', ''DB_ERROR'', ''ORA_ERROR'', ''USAGE'']"
    by (simp add: list_labels_def listing_catalog_def eval_defs)
  have m1: "''ORA_ERROR'' \<in> labels_at listing_catalog ''GLOBAL.DATABASE.ORACLE''"
    by (simp add: labels_at_def listing_catalog_def)
  have m2: "''ORA_ERROR'' \<notin> labels_at listing_catalog ''GLOBAL.DATABASE''"
    by (simp add: labels_at_def listing_catalog_def)
  note th = list_labels_sorted_union[OF listing_dict, of "''GLOBAL''"]
  have i1: "''ORA_ERROR'' \<in> set (list_labels listing_catalog (Some ''GLOBAL.DATABASE'') True)"
    by (rule th[THEN conjunct2, THEN conjunct2, THEN conjunct1, rule_format, OF m1])
  have i2: "''ORA_ERROR'' \<notin> set (list_labels listing_catalog (Some ''GLOBAL.DATABASE'') False)"
    by (rule th[THEN conjunct2, THEN conjunct2, THEN conjunct2, rule_format, OF m2])
  have i3: "sorted (list_labels listing_catalog (Some ''GLOBAL'') True)"
    using th[THEN conjunct1] unfolding Let_def by (elim conjE)
  show ?thesis using listing_dict e1 e2 e3 m1 i1 i2 i3 by (intro conjI)
qed

section \<open>Formatting: \<open>fmt\<close>\<close>

lemma emit_emit: "emit s (emit t r) = emit (s @ t) r"
  by (simp add: emit_def split: option.splits sum.splits)

lemma emit_Nil: "emit [] r = r"
  by (simp add: emit_def split: option.splits sum.splits)

lemma format_text_escape: "format_text (escape s @ rest) kw = emit s (format_text rest kw)"
proof (induction s)
  case Nil
  show ?case by (simp add: emit_Nil)
next
  case (Cons ch s)
  show ?case
  proof (cases "ch = CHR ''{'' \<or> ch = CHR ''}''")
    case True
    then show ?thesis using Cons.IH by (auto simp: emit_emit)
  next
    case False
    then show ?thesis using Cons.IH by (simp add: emit_emit)
  qed
qed

lemma format_field_name:
  assumes "\<forall>ch \<in> set n. ch \<notin> {CHR ''{'', CHR ''}'', CHR ''!'', CHR '':'', CHR ''.'', CHR ''[''}"
  shows "format_field (n @ CHR ''}'' # rest) acc kw =
           (if acc @ n = [] \<or> list_all is_digit (acc @ n)
            then Some (Inl (FormatError PositionalField))
            else (case map_of kw (acc @ n) of
                    None \<Rightarrow> Some (Inl (FormatError (MissingKey (acc @ n))))
                  | Some v \<Rightarrow> emit v (format_text rest kw)))"
  using assms by (induction n arbitrary: acc) (simp_all split: option.splits)

lemma format_text_field:
  assumes "plain_name n"
  shows "format_text (CHR ''{'' # n @ CHR ''}'' # rest) kw =
           (case map_of kw n of
              None \<Rightarrow> Some (Inl (FormatError (MissingKey n)))
            | Some v \<Rightarrow> emit v (format_text rest kw))"
proof -
  from assms obtain ch n' where n: "n = ch # n'" and ch: "ch \<noteq> CHR ''{''"
    by (cases n) (auto simp: plain_name_def)
  have chars: "\<forall>ch \<in> set n. ch \<notin> {CHR ''{'', CHR ''}'', CHR ''!'', CHR '':'', CHR ''.'', CHR ''[''}"
    using assms by (simp add: plain_name_def)
  have "format_text (CHR ''{'' # n @ CHR ''}'' # rest) kw
      = format_field (n @ CHR ''}'' # rest) [] kw"
    using ch by (simp add: n)
  also have "\<dots> = (case map_of kw n of
              None \<Rightarrow> Some (Inl (FormatError (MissingKey n)))
            | Some v \<Rightarrow> emit v (format_text rest kw))"
    using assms format_field_name[OF chars, of rest "[]" kw]
    by (simp add: plain_name_def split: option.splits)
  finally show ?thesis .
qed

lemma plain_format_Lit:
  "plain_format (render (Lit s # segs)) kw = emit s (plain_format (render segs) kw)"
  by (simp only: render.simps plain_format_def format_text_escape)

lemma plain_format_Field:
  "plain_name n \<Longrightarrow>
   plain_format (render (Field n # segs)) kw =
     (case map_of kw n of
        None \<Rightarrow> Some (Inl (FormatError (MissingKey n)))
      | Some v \<Rightarrow> emit v (plain_format (render segs) kw))"
  by (simp only: render.simps plain_format_def format_text_field)

lemma fields_of_Lit: "fields_of (Lit s # segs) = fields_of segs"
  by (simp add: fields_of_def)

lemma fields_of_Field: "fields_of (Field n # segs) = n # fields_of segs"
  by (simp add: fields_of_def)

lemma plain_format_render_complete:
  assumes "\<forall>n \<in> set (fields_of segs). plain_name n \<and> map_of kw n \<noteq> None"
  shows "plain_format (render segs) kw = Some (Inr (substitute kw segs))"
  using assms
proof (induction segs)
  case Nil
  show ?case by (simp add: plain_format_def)
next
  case (Cons sg segs)
  show ?case
  proof (cases sg)
    case (Lit s)
    with Cons have "plain_format (render segs) kw = Some (Inr (substitute kw segs))"
      by (simp add: fields_of_Lit)
    then show ?thesis unfolding Lit plain_format_Lit by (simp add: emit_def)
  next
    case (Field n)
    with Cons.prems have pn: "plain_name n" and "map_of kw n \<noteq> None"
      by (simp_all add: fields_of_Field)
    then obtain v where v: "map_of kw n = Some v" by auto
    from Field Cons have "plain_format (render segs) kw = Some (Inr (substitute kw segs))"
      by (simp add: fields_of_Field)
    then show ?thesis unfolding Field plain_format_Field[OF pn] by (simp add: v emit_def)
  qed
qed

lemma plain_format_render_missing:
  assumes "\<forall>n \<in> set (fields_of segs). plain_name n"
    and "\<exists>n \<in> set (fields_of segs). map_of kw n = None"
  shows "\<exists>e. plain_format (render segs) kw = Some (Inl e)"
  using assms
proof (induction segs)
  case Nil
  then show ?case by (simp add: fields_of_def)
next
  case (Cons sg segs)
  show ?case
  proof (cases sg)
    case (Lit s)
    with Cons obtain e where "plain_format (render segs) kw = Some (Inl e)"
      by (auto simp: fields_of_Lit)
    then show ?thesis unfolding Lit plain_format_Lit by (simp add: emit_def)
  next
    case (Field n)
    with Cons.prems have pn: "plain_name n" by (simp add: fields_of_Field)
    show ?thesis
    proof (cases "map_of kw n")
      case None
      then show ?thesis unfolding Field plain_format_Field[OF pn] by simp
    next
      case (Some v)
      with Field Cons obtain e where "plain_format (render segs) kw = Some (Inl e)"
        by (auto simp: fields_of_Field)
      then show ?thesis unfolding Field plain_format_Field[OF pn] by (simp add: Some emit_def)
    qed
  qed
qed

lemma formats_plain_str_format: "formats_plain str_format"
  by (simp add: formats_plain_def str_format_def)

lemma formats_plainD:
  "formats_plain format \<Longrightarrow> plain_format template kwargs = Some r \<Longrightarrow> format template kwargs = r"
  by (simp add: formats_plain_def)

lemma greeting_loaded:
  "greeting_catalog =
     \<lparr> data = [(''GLOBAL'', [(''GREETING'', [(''EN'', ''Hello {name}'')])])],
       default_lang = ''EN'', allowed = None, context_domain = ''GLOBAL'' \<rparr>"
  by (simp add: greeting_catalog_def greeting_json_def load_domains_from_file_def eval_defs)

lemma greeting_template:
  "get_text greeting_catalog ''GREETING'' (Some ''EN'') None None None = Inr ''Hello {name}''"
  by (simp add: greeting_loaded get_text_def lang_or_def try_domain_def domain_chain_def eval_defs)

lemma greeting_formats:
  "plain_format ''Hello {name}'' [(''name'', ''Ann'')] = Some (Inr ''Hello Ann'')"
  "plain_format ''Hello {name}'' [] = Some (Inl (FormatError (MissingKey ''name'')))"
  by (simp_all add: plain_format_def emit_def is_digit_def)

text \<open>Keys that are no parameter names all reach \<^verbatim>\<open>kwargs\<close>.\<close>

lemma filter_unreserved:
  "fst ` set kws \<inter> reserved_names = {} \<Longrightarrow>
   filter (\<lambda>(k, v). k \<notin> reserved_names) kws = kws"
  by (induction kws) auto

lemma map_of_unreserved:
  "fst ` set kws \<inter> reserved_names = {} \<Longrightarrow> k \<in> reserved_names \<Longrightarrow>
   map_of kws k = None"
  by (auto simp: map_of_eq_None_iff)

lemma fmt_unreserved:
  assumes "fst ` set kws \<inter> reserved_names = {}"
  shows "fmt format c label lang kws =
     (case get_text c label lang None None None of
        Inl e \<Rightarrow> Inl e
      | Inr template \<Rightarrow>
          (case format template kws of Inl e \<Rightarrow> Inr template | Inr s \<Rightarrow> Inr s))"
proof -
  have r: "''self'' \<in> reserved_names" "''label'' \<in> reserved_names" "''lang'' \<in> reserved_names"
    "''fallback_lang'' \<in> reserved_names" "''default'' \<in> reserved_names"
    "''domain'' \<in> reserved_names"
    by (simp_all add: reserved_names_def)
  have nk: "''self'' \<notin> fst ` set kws" "''label'' \<notin> fst ` set kws"
    "''lang'' \<notin> fst ` set kws"
    using assms r by blast+
  have m: "map_of kws ''lang'' = None" "map_of kws ''fallback_lang'' = None"
    "map_of kws ''default'' = None" "map_of kws ''domain'' = None"
    using map_of_unreserved[OF assms] r by simp_all
  show ?thesis
    unfolding fmt_def Let_def
    by (cases lang) (simp_all only: nk m filter_unreserved[OF assms] simp_thms if_False option.case)
qed

lemma fmt_fragment:
  assumes un: "fst ` set kws \<inter> reserved_names = {}"
    and fp: "formats_plain format"
    and gt: "get_text c label lang None None None = Inr (render segs)"
    and pn: "\<forall>n \<in> set (fields_of segs). plain_name n"
  shows "fmt format c label lang kws =
         Inr (if \<forall>n \<in> set (fields_of segs). map_of kws n \<noteq> None
              then substitute kws segs else render segs)"
proof (cases "\<forall>n \<in> set (fields_of segs). map_of kws n \<noteq> None")
  case True
  with pn have "\<forall>n \<in> set (fields_of segs). plain_name n \<and> map_of kws n \<noteq> None" by simp
  then have "plain_format (render segs) kws = Some (Inr (substitute kws segs))"
    by (rule plain_format_render_complete)
  then have "format (render segs) kws = Inr (substitute kws segs)"
    using fp by (rule formats_plainD[rotated])
  then have "fmt format c label lang kws = Inr (substitute kws segs)"
    using gt by (simp add: fmt_unreserved[OF un])
  then show ?thesis by (simp only: if_P[OF True])
next
  case False
  then have ex: "\<exists>n \<in> set (fields_of segs). map_of kws n = None" by simp
  from plain_format_render_missing[OF pn ex] obtain e where
    "plain_format (render segs) kws = Some (Inl e)" ..
  then have "format (render segs) kws = Inl e"
    using fp by (rule formats_plainD[rotated])
  then have "fmt format c label lang kws = Inr (render segs)"
    using gt by (simp add: fmt_unreserved[OF un])
  then show ?thesis by (simp only: if_not_P[OF False])
qed

lemma fmt_greeting:
  assumes "formats_plain format"
  shows "fmt format greeting_catalog ''GREETING'' (Some ''EN'') [(''name'', ''Ann'')]
           = Inr ''Hello Ann''"
    and "fmt format greeting_catalog ''GREETING'' (Some ''EN'') [] = Inr ''Hello {name}''"
proof -
  have u1: "fst ` set [(''name'', ''Ann'')] \<inter> reserved_names = {}"
    by (simp add: reserved_names_def)
  have u2: "fst ` set ([] :: (string \<times> string) list) \<inter> reserved_names = {}" by simp
  have f1: "format ''Hello {name}'' [(''name'', ''Ann'')] = Inr ''Hello Ann''"
    using assms greeting_formats(1) by (rule formats_plainD)
  have f2: "format ''Hello {name}'' [] = Inl (FormatError (MissingKey ''name''))"
    using assms greeting_formats(2) by (rule formats_plainD)
  show "fmt format greeting_catalog ''GREETING'' (Some ''EN'') [(''name'', ''Ann'')]
           = Inr ''Hello Ann''"
    by (simp add: fmt_unreserved[OF u1] greeting_template f1)
  show "fmt format greeting_catalog ''GREETING'' (Some ''EN'') [] = Inr ''Hello {name}''"
    by (simp add: fmt_unreserved[OF u2] greeting_template f2)
qed

lemma fmt_bound:
  assumes "\<not> (''self'' \<in> fst ` set kws \<or> ''label'' \<in> fst ` set kws \<or>
              (lang \<noteq> None \<and> ''lang'' \<in> fst ` set kws))"
    and "get_text c label (case lang of None \<Rightarrow> map_of kws ''lang'' | Some l \<Rightarrow> Some l)
           (map_of kws ''fallback_lang'') (map_of kws ''default'') (map_of kws ''domain'')
         = Inr template"
  shows "fmt format c label lang kws =
           (case format template (filter (\<lambda>(k, v). k \<notin> reserved_names) kws) of
              Inl e \<Rightarrow> Inr template | Inr s \<Rightarrow> Inr s)"
  unfolding fmt_def Let_def using assms(2) by (simp only: assms(1) if_False sum.case)

text \<open>
  C6, as the code has it. The substitution map of \<open>fmt\<close> is what the caller passes by
  keyword, with string values. A map with the key \<open>self\<close> or \<open>label\<close>, or with the key
  \<open>lang\<close> beside a positional language, raises \<^verbatim>\<open>TypeError\<close> at the call. Otherwise the
  keys \<open>lang\<close>, \<open>fallback_lang\<close>, \<open>default\<close> and \<open>domain\<close> are taken as lookup
  arguments, and when the lookup finds a template, \<open>fmt\<close> does not raise: it returns what
  \<^verbatim>\<open>str.format\<close> returns for the template and the rest of the map, and the template
  unchanged when \<^verbatim>\<open>str.format\<close> raises. For a map none of whose keys is a parameter
  name the rest is the whole map; then, on a template written with literal text, doubled
  braces and plain \<^verbatim>\<open>{name}\<close> fields, the result is the substituted text when the map has
  every field of the template, and the template when a field is missing. With the
  template \<^verbatim>\<open>Hello {name}\<close>, the map \<^verbatim>\<open>{name: Ann}\<close> gives \<^verbatim>\<open>Hello Ann\<close> and the empty
  map gives \<^verbatim>\<open>Hello {name}\<close>.
\<close>

theorem fmt_returns_template_on_failure:
  "(''self'' \<in> fst ` set kws \<or> ''label'' \<in> fst ` set kws \<or>
    (lang \<noteq> None \<and> ''lang'' \<in> fst ` set kws) \<longrightarrow>
      fmt format c label lang kws = Inl TypeError) \<and>
   (\<not> (''self'' \<in> fst ` set kws \<or> ''label'' \<in> fst ` set kws \<or>
        (lang \<noteq> None \<and> ''lang'' \<in> fst ` set kws)) \<longrightarrow>
      (\<forall>template.
         get_text c label (case lang of None \<Rightarrow> map_of kws ''lang'' | Some l \<Rightarrow> Some l)
           (map_of kws ''fallback_lang'') (map_of kws ''default'') (map_of kws ''domain'')
         = Inr template \<longrightarrow>
         fmt format c label lang kws =
           (case format template (filter (\<lambda>(k, v). k \<notin> reserved_names) kws) of
              Inl e \<Rightarrow> Inr template | Inr s \<Rightarrow> Inr s))) \<and>
   (fst ` set kws \<inter> reserved_names = {} \<longrightarrow>
      (\<forall>template. get_text c label lang None None None = Inr template \<longrightarrow>
         fmt format c label lang kws =
           (case format template kws of Inl e \<Rightarrow> Inr template | Inr s \<Rightarrow> Inr s)) \<and>
      (formats_plain format \<and> get_text c label lang None None None = Inr (render segs) \<and>
       (\<forall>n \<in> set (fields_of segs). plain_name n) \<longrightarrow>
         fmt format c label lang kws =
           Inr (if \<forall>n \<in> set (fields_of segs). map_of kws n \<noteq> None
                then substitute kws segs else render segs))) \<and>
   (formats_plain format \<longrightarrow>
      fmt format greeting_catalog ''GREETING'' (Some ''EN'') [(''name'', ''Ann'')]
        = Inr ''Hello Ann'' \<and>
      fmt format greeting_catalog ''GREETING'' (Some ''EN'') [] = Inr ''Hello {name}'')"
proof (intro conjI impI allI)
  assume "''self'' \<in> fst ` set kws \<or> ''label'' \<in> fst ` set kws \<or>
    (lang \<noteq> None \<and> ''lang'' \<in> fst ` set kws)"
  then show "fmt format c label lang kws = Inl TypeError"
    unfolding fmt_def by (simp only: if_True)
next
  fix template
  assume "\<not> (''self'' \<in> fst ` set kws \<or> ''label'' \<in> fst ` set kws \<or>
        (lang \<noteq> None \<and> ''lang'' \<in> fst ` set kws))"
    and "get_text c label (case lang of None \<Rightarrow> map_of kws ''lang'' | Some l \<Rightarrow> Some l)
           (map_of kws ''fallback_lang'') (map_of kws ''default'') (map_of kws ''domain'')
         = Inr template"
  then show "fmt format c label lang kws =
           (case format template (filter (\<lambda>(k, v). k \<notin> reserved_names) kws) of
              Inl e \<Rightarrow> Inr template | Inr s \<Rightarrow> Inr s)"
    by (rule fmt_bound)
next
  fix template
  assume "fst ` set kws \<inter> reserved_names = {}"
    and "get_text c label lang None None None = Inr template"
  then show "fmt format c label lang kws =
           (case format template kws of Inl e \<Rightarrow> Inr template | Inr s \<Rightarrow> Inr s)"
    by (simp add: fmt_unreserved)
next
  assume "fst ` set kws \<inter> reserved_names = {}"
    and "formats_plain format \<and> get_text c label lang None None None = Inr (render segs) \<and>
       (\<forall>n \<in> set (fields_of segs). plain_name n)"
  then show "fmt format c label lang kws =
           Inr (if \<forall>n \<in> set (fields_of segs). map_of kws n \<noteq> None
                then substitute kws segs else render segs)"
    using fmt_fragment[of kws format c label lang segs] by blast
next
  assume "formats_plain format"
  then show "fmt format greeting_catalog ''GREETING'' (Some ''EN'') [(''name'', ''Ann'')]
        = Inr ''Hello Ann''"
    by (rule fmt_greeting(1))
next
  assume "formats_plain format"
  then show "fmt format greeting_catalog ''GREETING'' (Some ''EN'') [] = Inr ''Hello {name}''"
    by (rule fmt_greeting(2))
qed

theorem fmt_returns_template_on_failure_witness:
  "fst ` set [(''name'', ''Ann''), (''unused'', ''x'')] \<inter> reserved_names = {} \<and>
   formats_plain str_format \<and>
   get_text greeting_catalog ''GREETING'' (Some ''EN'') None None None = Inr ''Hello {name}'' \<and>
   render [Lit ''Hello '', Field ''name''] = ''Hello {name}'' \<and>
   plain_name ''name'' \<and>
   fmt str_format greeting_catalog ''GREETING'' (Some ''EN'')
     [(''name'', ''Ann''), (''unused'', ''x'')] = Inr ''Hello Ann'' \<and>
   fmt str_format greeting_catalog ''GREETING'' (Some ''EN'') [] = Inr ''Hello {name}'' \<and>
   fmt str_format greeting_catalog ''GREETING'' (Some ''EN'') [(''label'', ''x'')] = Inl TypeError \<and>
   get_text greeting_catalog ''GREETING'' (Some ''EN'') None None (Some ''GLOBAL.CSV'')
     = Inr ''Hello {name}'' \<and>
   fmt str_format greeting_catalog ''GREETING'' (Some ''EN'')
     [(''name'', ''Ann''), (''domain'', ''GLOBAL.CSV'')] = Inr ''Hello Ann''"
proof -
  have u: "fst ` set [(''name'', ''Ann''), (''unused'', ''x'')] \<inter> reserved_names = {}"
    by (simp add: reserved_names_def)
  have r: "render [Lit ''Hello '', Field ''name''] = ''Hello {name}''" by simp
  have p: "plain_name ''name''" by (simp add: plain_name_def is_digit_def)
  have f: "fields_of [Lit ''Hello '', Field ''name''] = [''name'']" by (simp add: fields_of_def)
  have g: "get_text greeting_catalog ''GREETING'' (Some ''EN'') None None None
             = Inr (render [Lit ''Hello '', Field ''name''])"
    using greeting_template r by simp
  have gd: "get_text greeting_catalog ''GREETING'' (Some ''EN'') None None (Some ''GLOBAL.CSV'')
     = Inr ''Hello {name}''"
    by (simp add: greeting_loaded get_text_def lang_or_def try_domain_def domain_chain_def
        eval_defs)
  have nt: "\<not> (''self'' \<in> fst ` set [(''name'', ''Ann''), (''domain'', ''GLOBAL.CSV'')] \<or>
      ''label'' \<in> fst ` set [(''name'', ''Ann''), (''domain'', ''GLOBAL.CSV'')] \<or>
      (Some ''EN'' \<noteq> None \<and>
       ''lang'' \<in> fst ` set [(''name'', ''Ann''), (''domain'', ''GLOBAL.CSV'')]))"
    by simp
  have sf: "str_format ''Hello {name}'' [(''name'', ''Ann'')] = Inr ''Hello Ann''"
    using formats_plain_str_format greeting_formats(1) by (rule formats_plainD)
  note th = fmt_returns_template_on_failure[where c = greeting_catalog and label = "''GREETING''"
      and lang = "Some ''EN''" and format = str_format
      and segs = "[Lit ''Hello '', Field ''name'']"]
  have a: "fmt str_format greeting_catalog ''GREETING'' (Some ''EN'')
     [(''name'', ''Ann''), (''unused'', ''x'')] = Inr ''Hello Ann''"
    using th[where kws = "[(''name'', ''Ann''), (''unused'', ''x'')]", THEN conjunct2,
        THEN conjunct2, THEN conjunct1, rule_format, OF u, THEN conjunct2]
      formats_plain_str_format g p
    by (simp add: f)
  have b: "fmt str_format greeting_catalog ''GREETING'' (Some ''EN'') [] = Inr ''Hello {name}''"
    using th[where kws = "[]", THEN conjunct2, THEN conjunct2, THEN conjunct2]
      formats_plain_str_format by simp
  have c: "fmt str_format greeting_catalog ''GREETING'' (Some ''EN'') [(''label'', ''x'')]
             = Inl TypeError"
    using th[where kws = "[(''label'', ''x'')]", THEN conjunct1] by simp
  have d: "fmt str_format greeting_catalog ''GREETING'' (Some ''EN'')
     [(''name'', ''Ann''), (''domain'', ''GLOBAL.CSV'')] = Inr ''Hello Ann''"
    using th[where kws = "[(''name'', ''Ann''), (''domain'', ''GLOBAL.CSV'')]", THEN conjunct2,
        THEN conjunct1, rule_format, OF nt, where template = "''Hello {name}''"] gd
    by (simp add: reserved_names_def sf)
  show ?thesis
    by (intro conjI) (rule u formats_plain_str_format greeting_template r p a b c gd d)+
qed

lemma domain_message_loaded:
  "domain_message_catalog =
     \<lparr> data = [(''GLOBAL'', [(''BAD_DOMAIN'', [(''EN'', ''Bad domain {domain}'')])])],
       default_lang = ''EN'', allowed = None, context_domain = ''GLOBAL'' \<rparr>"
  by (simp add: domain_message_catalog_def load_domains_from_file_def eval_defs)

lemma domain_message_template:
  "get_text domain_message_catalog ''BAD_DOMAIN'' (Some ''EN'') None None (Some ''X'')
     = Inr ''Bad domain {domain}''"
  by (simp add: domain_message_loaded get_text_def lang_or_def try_domain_def domain_chain_def
      eval_defs)

text \<open>
  C6 as stated fails for a map with a key named like a parameter of \<open>fmt\<close>. The map
  \<^verbatim>\<open>{domain: X}\<close> has every field of the template \<^verbatim>\<open>Bad domain {domain}\<close>, and
  \<^verbatim>\<open>str.format\<close> on the two gives \<^verbatim>\<open>Bad domain X\<close>; but \<open>fmt\<close> takes \<open>domain\<close> as the
  lookup domain, formats with an empty map and returns the template. A map with the key
  \<open>label\<close> raises \<^verbatim>\<open>TypeError\<close>.
\<close>

theorem fmt_reserved_keys_counterexample:
  "plain_format ''Bad domain {domain}'' [(''domain'', ''X'')] = Some (Inr ''Bad domain X'') \<and>
   plain_format ''Bad domain {domain}'' [] = Some (Inl (FormatError (MissingKey ''domain''))) \<and>
   fmt str_format domain_message_catalog ''BAD_DOMAIN'' (Some ''EN'') [(''domain'', ''X'')]
     = Inr ''Bad domain {domain}'' \<and>
   fmt str_format greeting_catalog ''GREETING'' (Some ''EN'') [(''name'', ''Ann''), (''label'', ''x'')]
     = Inl TypeError"
proof -
  have a: "plain_format ''Bad domain {domain}'' [(''domain'', ''X'')] = Some (Inr ''Bad domain X'')"
    by (simp add: plain_format_def emit_def is_digit_def)
  have b: "plain_format ''Bad domain {domain}'' []
             = Some (Inl (FormatError (MissingKey ''domain'')))"
    by (simp add: plain_format_def emit_def is_digit_def)
  have c: "fmt str_format domain_message_catalog ''BAD_DOMAIN'' (Some ''EN'') [(''domain'', ''X'')]
     = Inr ''Bad domain {domain}''"
    by (simp add: fmt_def reserved_names_def domain_message_template str_format_def b)
  have d: "fmt str_format greeting_catalog ''GREETING'' (Some ''EN'')
             [(''name'', ''Ann''), (''label'', ''x'')] = Inl TypeError"
    by (simp add: fmt_def)
  show ?thesis using a b c d by simp
qed

end
